theory Spec2Isabelle
  imports Complex_Main "HOL-Library.Word"
begin

section \<open>Shared vocabulary of the cluster1 scripts\<close>

text \<open>
  Every script is one run-to-completion program around SDK calls. A run is modelled as a
  function from what the outside world answers (the responses of the remote node, the
  keys the random generator hands out, the file system) to what the script does: the
  SDK calls it issues, in order, and how it ends.

  A JavaScript exception is a value, and anything can be thrown. A thrown value is kept
  as far as the scripts look at it: \<open>null\<close> and \<open>undefined\<close>, on which every property
  read throws, and any other value with what reading its \<open>message\<close> property gives:
  \<^item> \<open>Falsy\<close>: no such property, or a falsy value that is not a string;
  \<^item> \<open>Str m\<close>: the string \<open>m\<close> (every \<open>Error\<close> object; the empty string is falsy);
  \<^item> \<open>NonString r\<close>: a truthy value that is not a string, where \<open>r\<close> is what calling its
    \<open>includes\<close> with the searched marker does: it throws (a TypeError when \<open>includes\<close> is
    not a function) or it answers truthy or falsy;
  \<^item> \<open>Unreadable e\<close>: the read itself throws \<open>e\<close> (an accessor that throws).
  Reading the property twice gives the same result.
\<close>

datatype js_error =
    ThrownNull
  | ThrownUndefined
  | Thrown (message: js_message)
and js_message =
    Falsy
  | Str string
  | NonString "js_error + bool"
  | Unreadable js_error

text \<open>An \<open>Error\<close> object (of any class) with the given message.\<close>

definition ErrorObject :: "string \<Rightarrow> js_error" where
  "ErrorObject text = Thrown (Str text)"

text \<open>
  Addresses stay symbolic. \<open>Base58\<close> is a literal handed to \<open>new PublicKey(...)\<close>,
  \<open>GeneratedKey n\<close> is the public key of the \<open>n\<close>-th keypair the random generator can
  return, \<open>AssociatedTokenAddress\<close> is what \<open>getAssociatedTokenAddressSync\<close> derives from
  (mint, owner, token program, associated-token program), and the two program ids are the
  constants exported by the token SDK.
\<close>

datatype address =
    Base58 string
  | GeneratedKey nat
  | TOKEN_2022_PROGRAM_ID
  | ASSOCIATED_TOKEN_PROGRAM_ID
  | AssociatedTokenAddress address address address address

record keypair =
  secretKey :: "8 word list"
  publicKey :: address

text \<open>
  What \<open>connection.getAccountInfo\<close> returns for an existing account, and the token
  account that \<open>getAccount\<close> decodes (its balance and the fee withheld on it, when the
  account carries the transfer-fee extension).
\<close>

record account_info =
  ai_lamports :: int
  ai_owner :: address

record token_account =
  ta_amount :: int
  ta_withheldAmount :: "int option"

text \<open>The instructions the scripts put into transactions, with the arguments of their builders.\<close>

datatype instruction =
    CreateAccount (fromPubkey: address) (newAccountPubkey: address) (space: nat)
      (lamports: int) (programId: address)
  | InitializeTransferFeeConfig address address address int int address
  | InitializeMint address nat address "address option" address
  | CreateAssociatedTokenAccount address address address address address address

text \<open>
  \<open>new Transaction().add(i1, i2, ...)\<close> of web3.js appends its arguments to the
  transaction's instruction array in argument order.
\<close>

record transaction =
  instructions :: "instruction list"

definition new_Transaction :: transaction where
  "new_Transaction = \<lparr>instructions = []\<rparr>"

definition add :: "transaction \<Rightarrow> instruction list \<Rightarrow> transaction" where
  "add tx items = tx\<lparr>instructions := instructions tx @ items\<rparr>"

text \<open>The document handed to the uploader and the arguments of the metadata instruction.\<close>

record metadata_json =
  mj_name :: string
  mj_symbol :: string
  mj_description :: string

record creator =
  cr_address :: address
  cr_verified :: bool
  cr_share :: nat

record data_v2 =
  dv_name :: string
  dv_symbol :: string
  dv_uri :: string
  dv_sellerFeeBasisPoints :: nat
  dv_creators :: "creator list"

record create_metadata_v3 =
  cm_mint :: address
  cm_mintAuthority :: address
  cm_payer :: address
  cm_updateAuthority :: address
  cm_data :: data_v2
  cm_isMutable :: bool

text \<open>
  The SDK calls that reach the remote node or the storage network. The three helpers
  \<open>mintTo\<close>, \<open>transferCheckedWithFee\<close> and the builder's \<open>sendAndConfirm\<close> each build
  and submit one transaction of their own.
\<close>

datatype sdk_call =
    GetBalance address
  | RequestAirdrop address int
  | GetLatestBlockhash
  | ConfirmTransaction string string
  | GetMinimumBalanceForRentExemption nat
  | SendAndConfirmTransaction "instruction list" "keypair list"
  | GetAccountInfo address
  | MintTo (mt_payer: keypair) (mt_mint: address) (mt_destination: address)
      (mt_authority: keypair) (mt_amount: int) (mt_programId: address)
  | TransferCheckedWithFee (tf_payer: keypair) (tf_source: address) (tf_mint: address)
      (tf_destination: address) (tf_owner: address) (tf_amount: int) (tf_decimals: nat)
      (tf_fee: int) (tf_programId: address)
  | GetAccount address address
  | UmiGetAccount address
  | UploadJson metadata_json
  | UmiSendAndConfirm create_metadata_v3

text \<open>
  Calls that change remote state (ledger or storage); the others only read it or wait
  for it.
\<close>

fun mutating :: "sdk_call \<Rightarrow> bool" where
  "mutating (RequestAirdrop _ _) = True"
| "mutating (SendAndConfirmTransaction _ _) = True"
| "mutating (MintTo _ _ _ _ _ _) = True"
| "mutating (TransferCheckedWithFee _ _ _ _ _ _ _ _ _) = True"
| "mutating (UploadJson _) = True"
| "mutating (UmiSendAndConfirm _) = True"
| "mutating _ = False"

text \<open>
  Console output is kept where it marks a decision of the script (validation errors,
  the early return, the catch handlers); plain progress lines are left out.
\<close>

datatype console_msg =
    SomethingWentWrong js_error
  | SufficientBalance
  | ManualAirdropHint address
  | MintAddressError
  | MintAccountMissing
  | MintAccountExists
  | MintAccountUnverified
  | MetadataUploaded string
  | UriError
  | UsingProvidedUri string
  | ErrorCreatingMetadata js_error
  | NftMismatchExplanation
  | GenericTroubleshooting

datatype event = Sdk sdk_call | Console console_msg

text \<open>
  A step either yields a value, throws, or ends the process with \<open>process.exit\<close>, which
  no \<open>catch\<close> intercepts. A run collects its events in order.
\<close>

datatype abort = Throw js_error | Exit nat

type_synonym 'a run = "event list \<times> (abort + 'a)"

definition return_run :: "'a \<Rightarrow> 'a run" where
  "return_run x = ([], Inr x)"

definition bind_run :: "'a run \<Rightarrow> ('a \<Rightarrow> 'b run) \<Rightarrow> 'b run" where
  "bind_run m f =
     (case m of
        (t, Inl a) \<Rightarrow> (t, Inl a)
      | (t, Inr x) \<Rightarrow> (case f x of (t', r) \<Rightarrow> (t @ t', r)))"

definition then_run :: "unit run \<Rightarrow> 'b run \<Rightarrow> 'b run" where
  "then_run m k = bind_run m (\<lambda>_. k)"

text \<open>\<open>await sdk(...)\<close>: the call is issued, and the world's answer decides how it ends.\<close>

definition await :: "sdk_call \<Rightarrow> js_error + 'a \<Rightarrow> 'a run" where
  "await c answer = ([Sdk c], case answer of Inl e \<Rightarrow> Inl (Throw e) | Inr x \<Rightarrow> Inr x)"

definition console :: "console_msg \<Rightarrow> unit run" where
  "console m = ([Console m], Inr ())"

definition process_exit :: "nat \<Rightarrow> 'a run" where
  "process_exit n = ([], Inl (Exit n))"

definition throwing :: "js_error + 'a \<Rightarrow> 'a run" where
  "throwing r = ([], case r of Inl e \<Rightarrow> Inl (Throw e) | Inr x \<Rightarrow> Inr x)"

text \<open>\<open>try { body } catch (e) { handler e }\<close>: a thrown value is handled, an exit is not.\<close>

definition try_catch :: "'a run \<Rightarrow> (js_error \<Rightarrow> 'a run) \<Rightarrow> 'a run" where
  "try_catch body handler =
     (case body of
        (t, Inl (Throw e)) \<Rightarrow> (case handler e of (t', r) \<Rightarrow> (t @ t', r))
      | (t, r) \<Rightarrow> (t, r))"

definition sdk_calls :: "event list \<Rightarrow> sdk_call list" where
  "sdk_calls t = concat (map (\<lambda>ev. case ev of Sdk c \<Rightarrow> [c] | Console _ \<Rightarrow> []) t)"

section \<open>spl_transfer.ts: the fee-aware transfer\<close>

text \<open>
  BigInt division truncates toward zero and throws a RangeError on a zero divisor.
\<close>

definition bigint_div :: "int \<Rightarrow> int \<Rightarrow> js_error + int" where
  "bigint_div a b =
     (if b = 0 then Inl (ErrorObject ''Division by zero'')
      else Inr (sgn a * sgn b * (\<bar>a\<bar> div \<bar>b\<bar>)))"

definition transfer_DECIMALS :: nat where
  "transfer_DECIMALS = 9"

definition transfer_TRANSFER_FEE_BASIS_POINTS :: int where
  "transfer_TRANSFER_FEE_BASIS_POINTS = 100"

definition transfer_MAX_FEE :: int where
  "transfer_MAX_FEE = 1000000000"

definition TRANSFER_AMOUNT :: int where
  "TRANSFER_AMOUNT = 100"

text \<open>
  \<open>transferAmount = BigInt(TRANSFER_AMOUNT) * BigInt(10 ** DECIMALS)\<close>, with the token count
  as argument so that the arithmetic can be stated for every count; \<open>10 ** 9\<close> is an exact
  double.
\<close>

definition transferAmount :: "int \<Rightarrow> int" where
  "transferAmount tokens = tokens * 10 ^ transfer_DECIMALS"

definition calculatedFee :: "int \<Rightarrow> js_error + int" where
  "calculatedFee amount = bigint_div (amount * transfer_TRANSFER_FEE_BASIS_POINTS) 10000"

definition fee :: "int \<Rightarrow> js_error + int" where
  "fee amount =
     (case calculatedFee amount of
        Inl e \<Rightarrow> Inl e
      | Inr c \<Rightarrow> Inr (if c > transfer_MAX_FEE then transfer_MAX_FEE else c))"

definition transfer_mint :: address where
  "transfer_mint = Base58 ''75qoQ7wo4Zax7EvZ3mGj9toiAL9HDNkuEDfRmF19T9tA''"

text \<open>
  What the world answers to one run: the keypair \<open>Keypair.generate()\<close> returns when the
  module is loaded, and the answer to each call site.
\<close>

record transfer_env =
  tr_generate :: keypair
  tr_getAccountInfo :: "js_error + account_info option"
  tr_createAta :: "js_error + string"
  tr_transferCheckedWithFee :: "js_error + string"
  tr_getAccount :: "js_error + token_account"

text \<open>\<open>const to = Keypair.generate().publicKey\<close>\<close>

definition to :: "transfer_env \<Rightarrow> address" where
  "to env = publicKey (tr_generate env)"

definition spl_transfer_body :: "keypair \<Rightarrow> transfer_env \<Rightarrow> int \<Rightarrow> unit run" where
  "spl_transfer_body wallet env tokens =
     (let fromAta = AssociatedTokenAddress transfer_mint (publicKey wallet)
                      TOKEN_2022_PROGRAM_ID ASSOCIATED_TOKEN_PROGRAM_ID;
          toAta = AssociatedTokenAddress transfer_mint (to env)
                      TOKEN_2022_PROGRAM_ID ASSOCIATED_TOKEN_PROGRAM_ID
      in bind_run (await (GetAccountInfo toAta) (tr_getAccountInfo env)) (\<lambda>toAtaInfo.
         then_run
           (if toAtaInfo = None then
              (let createAtaTx = add new_Transaction
                     [CreateAssociatedTokenAccount (publicKey wallet) toAta (to env) transfer_mint
                        TOKEN_2022_PROGRAM_ID ASSOCIATED_TOKEN_PROGRAM_ID]
               in bind_run
                    (await (SendAndConfirmTransaction (instructions createAtaTx) [wallet])
                       (tr_createAta env))
                    (\<lambda>_. return_run ()))
            else return_run ())
           (bind_run (throwing (fee (transferAmount tokens))) (\<lambda>f.
            bind_run
              (await (TransferCheckedWithFee wallet fromAta transfer_mint toAta (publicKey wallet)
                        (transferAmount tokens) transfer_DECIMALS f TOKEN_2022_PROGRAM_ID)
                 (tr_transferCheckedWithFee env)) (\<lambda>transferSig.
            bind_run (await (GetAccount toAta TOKEN_2022_PROGRAM_ID) (tr_getAccount env))
              (\<lambda>recipientAccount. return_run ()))))))"

text \<open>
  The catch block of this script, and of the funder, the initializer and the minter,
  interpolates the thrown value into one line; that conversion is taken to succeed.
\<close>

definition spl_transfer :: "keypair \<Rightarrow> transfer_env \<Rightarrow> int \<Rightarrow> unit run" where
  "spl_transfer wallet env tokens =
     try_catch (spl_transfer_body wallet env tokens) (\<lambda>error. console (SomethingWentWrong error))"

section \<open>airdrop.ts: the balance funder\<close>

record latest_blockhash =
  blockhash :: string
  lastValidBlockHeight :: nat

record airdrop_env =
  ad_getBalance :: "js_error + int"
  ad_requestAirdrop :: "js_error + string"
  ad_getLatestBlockhash :: "js_error + latest_blockhash"
  ad_confirmTransaction :: "js_error + unit"
  ad_getBalance_after :: "js_error + int"

text \<open>
  \<open>LAMPORTS_PER_SOL\<close> is a constant of web3.js and is taken as the parameter \<open>lps\<close>. The
  threshold \<open>0.5 * LAMPORTS_PER_SOL\<close> is computed in the rationals: one half is an exact
  double, and so is the product for the SDK's value \<open>1000000000\<close>. The blockhash
  fields are spread into the argument of \<open>confirmTransaction\<close>; the hash stands for them.
\<close>

definition airdrop_body :: "int \<Rightarrow> keypair \<Rightarrow> airdrop_env \<Rightarrow> unit run" where
  "airdrop_body lps wallet env =
     bind_run (await (GetBalance (publicKey wallet)) (ad_getBalance env)) (\<lambda>balance.
       if (of_int balance :: rat) \<ge> (1 / 2) * of_int lps then
         console SufficientBalance
       else
         bind_run (await (RequestAirdrop (publicKey wallet) (2 * lps)) (ad_requestAirdrop env))
           (\<lambda>txhash.
         bind_run (await GetLatestBlockhash (ad_getLatestBlockhash env)) (\<lambda>latestBlockhash.
         bind_run (await (ConfirmTransaction txhash (blockhash latestBlockhash))
                     (ad_confirmTransaction env)) (\<lambda>_.
         bind_run (await (GetBalance (publicKey wallet)) (ad_getBalance_after env))
           (\<lambda>newBalance. return_run ())))))"

definition airdrop :: "int \<Rightarrow> keypair \<Rightarrow> airdrop_env \<Rightarrow> unit run" where
  "airdrop lps wallet env =
     try_catch (airdrop_body lps wallet env)
       (\<lambda>e. then_run (console (SomethingWentWrong e)) (console (ManualAirdropHint (publicKey wallet))))"

section \<open>spl_init.ts: the mint initializer with the transfer-fee extension\<close>

definition init_TRANSFER_FEE_BASIS_POINTS :: int where
  "init_TRANSFER_FEE_BASIS_POINTS = 100"

definition init_MAX_FEE :: int where
  "init_MAX_FEE = 1000000000"

definition init_DECIMALS :: nat where
  "init_DECIMALS = 9"

datatype ExtensionType = TransferFeeConfig

text \<open>\<open>getMintLen\<close> is a pure function of the token SDK; the run receives it with the answers.\<close>

record init_env =
  in_generate :: keypair
  in_getMintLen :: "ExtensionType list \<Rightarrow> nat"
  in_getMinimumBalance :: "js_error + int"
  in_sendAndConfirm :: "js_error + string"

definition init_transaction :: "keypair \<Rightarrow> address \<Rightarrow> nat \<Rightarrow> int \<Rightarrow> transaction" where
  "init_transaction wallet mint mintLen mintLamports =
     add new_Transaction
       [CreateAccount (publicKey wallet) mint mintLen mintLamports TOKEN_2022_PROGRAM_ID,
        InitializeTransferFeeConfig mint (publicKey wallet) (publicKey wallet)
          init_TRANSFER_FEE_BASIS_POINTS init_MAX_FEE TOKEN_2022_PROGRAM_ID,
        InitializeMint mint init_DECIMALS (publicKey wallet) None TOKEN_2022_PROGRAM_ID]"

definition spl_init_body :: "keypair \<Rightarrow> init_env \<Rightarrow> unit run" where
  "spl_init_body wallet env =
     (let mintKeypair = in_generate env;
          mint = publicKey mintKeypair;
          extensions = [TransferFeeConfig];
          mintLen = in_getMintLen env extensions
      in bind_run (await (GetMinimumBalanceForRentExemption mintLen) (in_getMinimumBalance env))
           (\<lambda>mintLamports.
         bind_run
           (await (SendAndConfirmTransaction
                     (instructions (init_transaction wallet mint mintLen mintLamports))
                     [wallet, mintKeypair])
              (in_sendAndConfirm env))
           (\<lambda>signature. return_run ())))"

definition spl_init :: "keypair \<Rightarrow> init_env \<Rightarrow> unit run" where
  "spl_init wallet env = try_catch (spl_init_body wallet env) (\<lambda>error. console (SomethingWentWrong error))"

text \<open>Position of the first instruction of a kind in a transaction, if there is one.\<close>

fun position :: "('a \<Rightarrow> bool) \<Rightarrow> 'a list \<Rightarrow> nat option" where
  "position P [] = None"
| "position P (x # xs) =
     (if P x then Some 0 else map_option Suc (position P xs))"

section \<open>spl_mint.ts: the token minter\<close>

definition mint_mint :: address where
  "mint_mint = Base58 ''75qoQ7wo4Zax7EvZ3mGj9toiAL9HDNkuEDfRmF19T9tA''"

definition mint_DECIMALS :: nat where
  "mint_DECIMALS = 9"

definition AMOUNT_TO_MINT :: int where
  "AMOUNT_TO_MINT = 1000000000"

text \<open>\<open>BigInt(AMOUNT_TO_MINT) * BigInt(10 ** DECIMALS)\<close>\<close>

definition tokensToMint :: int where
  "tokensToMint = AMOUNT_TO_MINT * 10 ^ mint_DECIMALS"

record mint_env =
  mn_getAccountInfo :: "js_error + account_info option"
  mn_createAta :: "js_error + string"
  mn_mintTo :: "js_error + string"

definition spl_mint_body :: "keypair \<Rightarrow> mint_env \<Rightarrow> unit run" where
  "spl_mint_body wallet env =
     (let ata = AssociatedTokenAddress mint_mint (publicKey wallet)
                  TOKEN_2022_PROGRAM_ID ASSOCIATED_TOKEN_PROGRAM_ID
      in bind_run (await (GetAccountInfo ata) (mn_getAccountInfo env)) (\<lambda>ataInfo.
         then_run
           (if ataInfo = None then
              (let createAtaTx = add new_Transaction
                     [CreateAssociatedTokenAccount (publicKey wallet) ata (publicKey wallet)
                        mint_mint TOKEN_2022_PROGRAM_ID ASSOCIATED_TOKEN_PROGRAM_ID]
               in bind_run
                    (await (SendAndConfirmTransaction (instructions createAtaTx) [wallet])
                       (mn_createAta env))
                    (\<lambda>_. return_run ()))
            else return_run ())
           (bind_run
              (await (MintTo wallet mint_mint ata wallet tokensToMint TOKEN_2022_PROGRAM_ID)
                 (mn_mintTo env))
              (\<lambda>mintTx. return_run ()))))"

definition spl_mint :: "keypair \<Rightarrow> mint_env \<Rightarrow> unit run" where
  "spl_mint wallet env = try_catch (spl_mint_body wallet env) (\<lambda>error. console (SomethingWentWrong error))"

section \<open>spl_metadata.ts: the metadata publisher\<close>

text \<open>\<open>s.includes(p)\<close>: \<open>p\<close> occurs in \<open>s\<close> as a contiguous run of characters.\<close>

fun starts_with :: "string \<Rightarrow> string \<Rightarrow> bool" where
  "starts_with s [] = True"
| "starts_with [] (p # ps) = False"
| "starts_with (c # cs) (p # ps) = (c = p \<and> starts_with cs ps)"

fun string_includes :: "string \<Rightarrow> string \<Rightarrow> bool" where
  "string_includes [] p = (p = [])"
| "string_includes (c # cs) p = (starts_with (c # cs) p \<or> string_includes cs p)"

text \<open>
  The constants an operator edits before a run. The values in the repository are
  \<open>repository_config\<close>.
\<close>

record token_metadata =
  tm_name :: string
  tm_symbol :: string
  tm_uri :: string

record metadata_config =
  MINT_ADDRESS :: string
  TOKEN_METADATA :: token_metadata
  UPLOAD_METADATA_JSON :: bool
  RICH_METADATA_description :: string

definition repository_config :: metadata_config where
  "repository_config =
     \<lparr>MINT_ADDRESS = ''5SY3Rna38Ay1SAQvswinezjdaeGv576LAfTv9Vo7dcft'',
      TOKEN_METADATA =
        \<lparr>tm_name = ''Transfer Fee Token'', tm_symbol = ''TFT'',
         tm_uri = ''https://gateway.irys.xyz/2MGBorJjgj4wqine3KAETUmoavZNYt67n3gQVt1zriHw''\<rparr>,
      UPLOAD_METADATA_JSON = True,
      RICH_METADATA_description =
        ''A Solana SPL token with 1% transfer fee. Built using Token-2022 program with transfer fee extension.''\<rparr>"

record maybe_account =
  ma_exists :: bool

text \<open>
  The answers to one run; \<open>md_publicKey\<close> is the SDK's parser of a base58 address, which
  throws on a malformed one.
\<close>

record metadata_env =
  md_publicKey :: "string \<Rightarrow> js_error + address"
  md_getAccount :: "js_error + maybe_account"
  md_uploadJson :: "js_error + string"
  md_sendAndConfirm :: "js_error + string"

definition validate_mint :: "address \<Rightarrow> metadata_env \<Rightarrow> unit run" where
  "validate_mint mint env =
     try_catch
       (bind_run (await (UmiGetAccount mint) (md_getAccount env)) (\<lambda>mintAccount.
          if \<not> ma_exists mintAccount then
            then_run (console MintAccountMissing) (process_exit 1)
          else console MintAccountExists))
       (\<lambda>error. console MintAccountUnverified)"

definition choose_uri :: "metadata_config \<Rightarrow> metadata_env \<Rightarrow> string run" where
  "choose_uri cfg env =
     (let metadataUri = tm_uri (TOKEN_METADATA cfg)
      in if UPLOAD_METADATA_JSON cfg then
           (let metadataJson =
                  \<lparr>mj_name = tm_name (TOKEN_METADATA cfg),
                   mj_symbol = tm_symbol (TOKEN_METADATA cfg),
                   mj_description = RICH_METADATA_description cfg\<rparr>
            in bind_run (await (UploadJson metadataJson) (md_uploadJson env)) (\<lambda>uploaded.
               then_run (console (MetadataUploaded uploaded)) (return_run uploaded)))
         else if metadataUri = [] \<or> length metadataUri < 10 then
           then_run (console UriError) (process_exit 1)
         else then_run (console (UsingProvidedUri metadataUri)) (return_run metadataUri))"

definition spl_metadata_body :: "metadata_config \<Rightarrow> address \<Rightarrow> metadata_env \<Rightarrow> unit run" where
  "spl_metadata_body cfg signer env =
     (if string_includes (MINT_ADDRESS cfg) ''<PASTE'' \<or> length (MINT_ADDRESS cfg) < 32 then
        then_run (console MintAddressError) (process_exit 1)
      else
        bind_run (throwing (md_publicKey env (MINT_ADDRESS cfg))) (\<lambda>mint.
        then_run (validate_mint mint env)
       (bind_run (choose_uri cfg env) (\<lambda>metadataUri.
          (let data = \<lparr>dv_name = tm_name (TOKEN_METADATA cfg),
                       dv_symbol = tm_symbol (TOKEN_METADATA cfg),
                       dv_uri = metadataUri,
                       dv_sellerFeeBasisPoints = 0,
                       dv_creators =
                         [\<lparr>cr_address = signer, cr_verified = True, cr_share = 100\<rparr>]\<rparr>;
               tx = \<lparr>cm_mint = mint, cm_mintAuthority = signer, cm_payer = signer,
                     cm_updateAuthority = signer, cm_data = data, cm_isMutable = True\<rparr>
           in bind_run (await (UmiSendAndConfirm tx) (md_sendAndConfirm env))
                (\<lambda>result. return_run ()))))))"

text \<open>
  The catch block. \<open>error.message\<close> is read first, for the line that reports the error;
  on \<open>null\<close> and \<open>undefined\<close> that read throws a TypeError inside the handler, and
  nothing has been printed yet.
\<close>

fun read_message :: "js_error \<Rightarrow> js_error + js_message" where
  "read_message ThrownNull =
     Inl (ErrorObject ''Cannot read properties of null (reading 'message')'')"
| "read_message ThrownUndefined =
     Inl (ErrorObject ''Cannot read properties of undefined (reading 'message')'')"
| "read_message (Thrown (Unreadable e)) = Inl e"
| "read_message (Thrown m) = Inr m"

text \<open>
  \<open>error.message && error.message.includes(p)\<close>, as the condition of an \<open>if\<close>: a falsy
  message decides it without a call, a string is searched, and any other value is asked
  through its own \<open>includes\<close>.
\<close>

fun message_includes :: "js_message \<Rightarrow> string \<Rightarrow> js_error + bool" where
  "message_includes Falsy p = Inr False"
| "message_includes (Str m) p = Inr (m \<noteq> [] \<and> string_includes m p)"
| "message_includes (NonString answer) p = answer"
| "message_includes (Unreadable e) p = Inl e"

definition metadata_catch :: "js_error \<Rightarrow> unit run" where
  "metadata_catch error =
     bind_run (throwing (read_message error)) (\<lambda>msg.
       then_run (console (ErrorCreatingMetadata error))
         (bind_run (throwing (message_includes msg ''ProgrammableNonFungible'')) (\<lambda>conflict.
            if conflict then console NftMismatchExplanation
            else console GenericTroubleshooting)))"

definition spl_metadata :: "metadata_config \<Rightarrow> address \<Rightarrow> metadata_env \<Rightarrow> unit run" where
  "spl_metadata cfg signer env = try_catch (spl_metadata_body cfg signer env) metadata_catch"

text \<open>
  The thrown values on which the catch block runs to its end, and those among them in
  whose message the marker is found.
\<close>

fun handler_completes :: "js_error \<Rightarrow> bool" where
  "handler_completes (Thrown Falsy) = True"
| "handler_completes (Thrown (Str _)) = True"
| "handler_completes (Thrown (NonString (Inr _))) = True"
| "handler_completes _ = False"

fun marker_found :: "js_error \<Rightarrow> bool" where
  "marker_found (Thrown (Str m)) = string_includes m ''ProgrammableNonFungible''"
| "marker_found (Thrown (NonString (Inr b))) = b"
| "marker_found _ = False"

text \<open>The first check of the script: the mint address is a placeholder or too short.\<close>

definition mint_address_rejected :: "metadata_config \<Rightarrow> bool" where
  "mint_address_rejected cfg \<longleftrightarrow>
     string_includes (MINT_ADDRESS cfg) ''<PASTE'' \<or> length (MINT_ADDRESS cfg) < 32"

section \<open>keygen.ts: the key generator\<close>

text \<open>
  The file system is a map from paths (lists of segments below the root) to nodes. The
  three calls of Node's \<open>fs\<close> module the script uses are modelled with the failures that
  depend on what is at the path; permissions and devices are left out.
\<close>

type_synonym path = "string list"

datatype node = Dir | File string

type_synonym filesystem = "path \<Rightarrow> node option"

datatype fs_error = ENOENT | ENOTDIR | EISDIR | EEXIST

datatype fs_call = ExistsSync path | MkdirSync path bool | WriteFileSync path string

definition path_join :: "path \<Rightarrow> string \<Rightarrow> path" where
  "path_join p seg = p @ [seg]"

definition existsSync :: "filesystem \<Rightarrow> path \<Rightarrow> bool" where
  "existsSync fs p = (p = [] \<or> fs p \<noteq> None)"

text \<open>
  \<open>mkdirSync(p, {recursive: true})\<close> walks down the path, creates what is missing, accepts
  directories that are there and fails at a regular file.
\<close>

fun mkdirs :: "path \<Rightarrow> string list \<Rightarrow> filesystem \<Rightarrow> fs_error + filesystem" where
  "mkdirs pre [] fs = Inr fs"
| "mkdirs pre (seg # rest) fs =
     (case fs (pre @ [seg]) of
        None \<Rightarrow> mkdirs (pre @ [seg]) rest (fs(pre @ [seg] \<mapsto> Dir))
      | Some Dir \<Rightarrow> mkdirs (pre @ [seg]) rest fs
      | Some (File _) \<Rightarrow> Inl (if rest = [] then EEXIST else ENOTDIR))"

definition mkdirSync_recursive :: "filesystem \<Rightarrow> path \<Rightarrow> fs_error + filesystem" where
  "mkdirSync_recursive fs p = mkdirs [] p fs"

text \<open>\<open>writeFileSync\<close> needs the parent directory and replaces a regular file at the path.\<close>

definition writeFileSync :: "filesystem \<Rightarrow> path \<Rightarrow> string \<Rightarrow> fs_error + filesystem" where
  "writeFileSync fs p data =
     (if p = [] then Inl EISDIR
      else case (if butlast p = [] then Some Dir else fs (butlast p)) of
        None \<Rightarrow> Inl ENOENT
      | Some (File _) \<Rightarrow> Inl ENOTDIR
      | Some Dir \<Rightarrow>
          (case fs p of
             Some Dir \<Rightarrow> Inl EISDIR
           | _ \<Rightarrow> Inr (fs(p \<mapsto> File data))))"

text \<open>\<open>JSON.stringify(Array.from(bytes))\<close>: decimal numbers, comma separated, in brackets.\<close>

fun decimal :: "nat \<Rightarrow> string" where
  "decimal n =
     (if n < 10 then [''0123456789'' ! n]
      else decimal (n div 10) @ [''0123456789'' ! (n mod 10)])"

fun join_commas :: "string list \<Rightarrow> string" where
  "join_commas [] = []"
| "join_commas [x] = x"
| "join_commas (x # y # ys) = x @ '','' @ join_commas (y # ys)"

definition Array_from :: "8 word list \<Rightarrow> nat list" where
  "Array_from bytes = map unat bytes"

definition JSON_stringify :: "nat list \<Rightarrow> string" where
  "JSON_stringify ns = ''['' @ join_commas (map decimal ns) @ '']''"

text \<open>
  One run: \<open>kp\<close> is the keypair \<open>Keypair.generate()\<close> returned, \<open>dirname\<close> the directory of
  the script. The run yields the \<open>fs\<close> calls it made and the file system it leaves, or
  the error that ended it (nothing catches it).
\<close>

definition walletDir :: "path \<Rightarrow> path" where
  "walletDir dirname = path_join dirname ''wallet''"

definition walletFile :: "path \<Rightarrow> path" where
  "walletFile dirname = path_join (walletDir dirname) ''dev-wallet.json''"

definition keygen :: "keypair \<Rightarrow> path \<Rightarrow> filesystem \<Rightarrow> fs_call list \<times> (fs_error + filesystem)" where
  "keygen kp dirname fs =
     (let data = JSON_stringify (Array_from (secretKey kp));
          write = WriteFileSync (walletFile dirname) data
      in if \<not> existsSync fs (walletDir dirname) then
           (case mkdirSync_recursive fs (walletDir dirname) of
              Inl e \<Rightarrow> ([ExistsSync (walletDir dirname), MkdirSync (walletDir dirname) True], Inl e)
            | Inr fs1 \<Rightarrow>
                ([ExistsSync (walletDir dirname), MkdirSync (walletDir dirname) True, write],
                 writeFileSync fs1 (walletFile dirname) data))
         else ([ExistsSync (walletDir dirname), write],
               writeFileSync fs (walletFile dirname) data))"

text \<open>A directory that exists together with all its ancestors.\<close>

fun all_dirs :: "path \<Rightarrow> string list \<Rightarrow> filesystem \<Rightarrow> bool" where
  "all_dirs pre [] fs = True"
| "all_dirs pre (seg # rest) fs =
     (fs (pre @ [seg]) = Some Dir \<and> all_dirs (pre @ [seg]) rest fs)"

definition is_directory :: "filesystem \<Rightarrow> path \<Rightarrow> bool" where
  "is_directory fs p = all_dirs [] p fs"

section \<open>Sample inputs\<close>

text \<open>Concrete keys, answers and file systems on which the theorems below are instantiated.\<close>

definition sample_wallet :: keypair where
  "sample_wallet = \<lparr>secretKey = [7, 255, 0, 42], publicKey = Base58 ''WALLET''\<rparr>"

definition sample_generated :: "nat \<Rightarrow> keypair" where
  "sample_generated n = \<lparr>secretKey = [of_nat n, 9], publicKey = GeneratedKey n\<rparr>"

definition sample_transfer_env :: "nat \<Rightarrow> transfer_env" where
  "sample_transfer_env n =
     \<lparr>tr_generate = sample_generated n,
      tr_getAccountInfo = Inr None,
      tr_createAta = Inr ''sig-create'',
      tr_transferCheckedWithFee = Inr ''sig-transfer'',
      tr_getAccount = Inr \<lparr>ta_amount = 99000000000, ta_withheldAmount = Some 1000000000\<rparr>\<rparr>"

definition sample_airdrop_env :: "int \<Rightarrow> airdrop_env" where
  "sample_airdrop_env balance =
     \<lparr>ad_getBalance = Inr balance,
      ad_requestAirdrop = Inr ''sig-airdrop'',
      ad_getLatestBlockhash = Inr \<lparr>blockhash = ''hash'', lastValidBlockHeight = 100\<rparr>,
      ad_confirmTransaction = Inr (),
      ad_getBalance_after = Inr (balance + 2000000000)\<rparr>"

definition sample_init_env :: init_env where
  "sample_init_env =
     \<lparr>in_generate = sample_generated 5,
      in_getMintLen = (\<lambda>exts. 166 + 112 * length exts),
      in_getMinimumBalance = Inr 2825760,
      in_sendAndConfirm = Inr ''sig-init''\<rparr>"

definition sample_mint_env :: "account_info option \<Rightarrow> mint_env" where
  "sample_mint_env info =
     \<lparr>mn_getAccountInfo = Inr info,
      mn_createAta = Inr ''sig-create'',
      mn_mintTo = Inr ''sig-mint''\<rparr>"

definition sample_account_info :: account_info where
  "sample_account_info = \<lparr>ai_lamports = 2074080, ai_owner = TOKEN_2022_PROGRAM_ID\<rparr>"

definition sample_metadata_env :: "js_error + string \<Rightarrow> metadata_env" where
  "sample_metadata_env sent =
     \<lparr>md_publicKey = (\<lambda>s. Inr (Base58 s)),
      md_getAccount = Inr \<lparr>ma_exists = True\<rparr>,
      md_uploadJson = Inr ''https://gateway.irys.xyz/uploaded'',
      md_sendAndConfirm = sent\<rparr>"

definition no_upload_config :: "string \<Rightarrow> metadata_config" where
  "no_upload_config u =
     repository_config
       \<lparr>TOKEN_METADATA := (TOKEN_METADATA repository_config)\<lparr>tm_uri := u\<rparr>,
        UPLOAD_METADATA_JSON := False\<rparr>"

definition sample_dirname :: path where
  "sample_dirname = [''repo'', ''ts'', ''cluster1'']"

definition sample_fs :: filesystem where
  "sample_fs =
     Map.empty
       ([''repo''] \<mapsto> Dir, [''repo'', ''ts''] \<mapsto> Dir,
        [''repo'', ''ts'', ''cluster1''] \<mapsto> Dir,
        [''repo'', ''ts'', ''cluster1'', ''keygen.ts''] \<mapsto> File ''...'')"

definition sample_fs_with_wallet :: filesystem where
  "sample_fs_with_wallet =
     sample_fs([''repo'', ''ts'', ''cluster1'', ''wallet''] \<mapsto> Dir,
               [''repo'', ''ts'', ''cluster1'', ''wallet'', ''dev-wallet.json''] \<mapsto> File ''[1,2,3]'')"

definition sample_nft_error :: js_error where
  "sample_nft_error =
     ErrorObject ''Instruction #1 failed: expected Fungible, found ProgrammableNonFungible''"

definition sample_funds_error :: js_error where
  "sample_funds_error =
     ErrorObject ''Attempt to debit an account but found no record of a prior credit.''"

definition sample_key_error :: js_error where
  "sample_key_error = ErrorObject ''The provided public key is invalid''"

definition sample_refusing_env :: metadata_env where
  "sample_refusing_env =
     \<lparr>md_publicKey = (\<lambda>s. Inl sample_key_error),
      md_getAccount = Inr \<lparr>ma_exists = True\<rparr>,
      md_uploadJson = Inr ''https://gateway.irys.xyz/uploaded'',
      md_sendAndConfirm = Inr ''sig''\<rparr>"

definition unparsable_config :: metadata_config where
  "unparsable_config =
     (no_upload_config [])
       \<lparr>MINT_ADDRESS := ''xOIl0OIl0OIl0OIl0OIl0OIl0OIl0OIl0OIl0OIl000''\<rparr>"

section \<open>Facts about runs\<close>

lemmas run_defs = return_run_def bind_run_def then_run_def await_def console_def
  process_exit_def throwing_def try_catch_def

lemma sdk_calls_append: "sdk_calls (t @ u) = sdk_calls t @ sdk_calls u"
  by (simp add: sdk_calls_def)

lemma sdk_calls_simps:
  "sdk_calls [] = []"
  "sdk_calls (Sdk c # t) = c # sdk_calls t"
  "sdk_calls (Console m # t) = sdk_calls t"
  by (simp_all add: sdk_calls_def)

section \<open>Properties of keygen.ts\<close>

lemma mkdirs_append:
  "all_dirs pre xs fs \<Longrightarrow> mkdirs pre (xs @ ys) fs = mkdirs (pre @ xs) ys fs"
  by (induction xs arbitrary: pre) auto

lemma mkdirs_existing:
  "all_dirs [] dirname fs \<Longrightarrow> fs (dirname @ [seg]) = None \<Longrightarrow>
     mkdirSync_recursive fs (dirname @ [seg]) = Inr (fs(dirname @ [seg] \<mapsto> Dir))"
  by (simp add: mkdirSync_recursive_def mkdirs_append)

lemma wallet_paths:
  "walletDir dirname \<noteq> []" "walletFile dirname \<noteq> []"
  "butlast (walletFile dirname) = walletDir dirname"
  "walletFile dirname \<noteq> walletDir dirname"
  "walletDir dirname \<noteq> walletFile dirname"
  by (simp_all add: walletDir_def walletFile_def path_join_def butlast_append)

lemma walletDir_append: "walletDir dirname = dirname @ [''wallet'']"
  by (simp add: walletDir_def path_join_def)

lemma writeFileSync_in_dir:
  "p \<noteq> [] \<Longrightarrow> butlast p \<noteq> [] \<Longrightarrow> fs (butlast p) = Some Dir \<Longrightarrow> fs p \<noteq> Some Dir \<Longrightarrow>
     writeFileSync fs p data = Inr (fs(p \<mapsto> File data))"
  by (auto simp: writeFileSync_def split: option.splits node.splits)

lemma writeFileSync_result:
  "writeFileSync fs p data = Inr fs' \<Longrightarrow> butlast p \<noteq> [] \<Longrightarrow>
     fs (butlast p) = Some Dir \<and> fs' = fs(p \<mapsto> File data)"
  by (auto simp: writeFileSync_def split: option.splits node.splits if_splits)

lemma keygen_existing_dir:
  assumes dir: "fs (walletDir dirname) = Some Dir"
    and f: "fs (walletFile dirname) \<noteq> Some Dir"
  shows "keygen kp dirname fs =
     ([ExistsSync (walletDir dirname),
       WriteFileSync (walletFile dirname) (JSON_stringify (Array_from (secretKey kp)))],
      Inr (fs(walletFile dirname \<mapsto> File (JSON_stringify (Array_from (secretKey kp))))))"
proof -
  have "writeFileSync fs (walletFile dirname) data = Inr (fs(walletFile dirname \<mapsto> File data))"
    for data
    using f dir by (intro writeFileSync_in_dir) (simp_all add: wallet_paths)
  with dir show ?thesis
    by (simp add: keygen_def existsSync_def Let_def)
qed

lemma keygen_missing_dir:
  assumes d: "is_directory fs dirname"
    and w: "fs (walletDir dirname) = None"
    and f: "fs (walletFile dirname) \<noteq> Some Dir"
  shows "keygen kp dirname fs =
     ([ExistsSync (walletDir dirname), MkdirSync (walletDir dirname) True,
       WriteFileSync (walletFile dirname) (JSON_stringify (Array_from (secretKey kp)))],
      Inr (fs(walletDir dirname \<mapsto> Dir,
              walletFile dirname \<mapsto> File (JSON_stringify (Array_from (secretKey kp))))))"
proof -
  have m: "mkdirSync_recursive fs (walletDir dirname) = Inr (fs(walletDir dirname \<mapsto> Dir))"
    using d w by (simp add: walletDir_append mkdirs_existing is_directory_def)
  have "writeFileSync (fs(walletDir dirname \<mapsto> Dir)) (walletFile dirname) data
          = Inr ((fs(walletDir dirname \<mapsto> Dir))(walletFile dirname \<mapsto> File data))" for data
    using f by (intro writeFileSync_in_dir) (simp_all add: wallet_paths)
  with w m show ?thesis
    by (simp add: keygen_def existsSync_def wallet_paths(1) Let_def)
qed

lemma keygen_success_state:
  assumes "keygen kp dirname fs = (calls, Inr fs')"
  shows "fs' (walletDir dirname) = Some Dir \<and>
         fs' (walletFile dirname) = Some (File (JSON_stringify (Array_from (secretKey kp))))"
proof (cases "existsSync fs (walletDir dirname)")
  case True
  with assms have "writeFileSync fs (walletFile dirname)
      (JSON_stringify (Array_from (secretKey kp))) = Inr fs'"
    by (simp add: keygen_def Let_def)
  from writeFileSync_result [OF this] show ?thesis
    by (simp add: wallet_paths)
next
  case False
  with assms obtain fs1 where
    m: "mkdirSync_recursive fs (walletDir dirname) = Inr fs1" and
    wr: "writeFileSync fs1 (walletFile dirname) (JSON_stringify (Array_from (secretKey kp))) = Inr fs'"
    by (auto simp: keygen_def Let_def split: sum.splits)
  from writeFileSync_result [OF wr] show ?thesis
    by (simp add: wallet_paths)
qed

lemma sample_fs_facts:
  "is_directory sample_fs sample_dirname"
  "sample_fs (walletDir sample_dirname) = None"
  "sample_fs (walletFile sample_dirname) = None"
  "sample_fs_with_wallet (walletDir sample_dirname) = Some Dir"
  "sample_fs_with_wallet (walletFile sample_dirname) = Some (File ''[1,2,3]'')"
  "is_directory sample_fs_with_wallet sample_dirname"
  by (simp_all add: is_directory_def sample_fs_def sample_fs_with_wallet_def sample_dirname_def
      walletDir_def walletFile_def path_join_def)

lemma sample_json: "JSON_stringify (Array_from (secretKey sample_wallet)) = ''[7,255,0,42]''"
  by (simp add: JSON_stringify_def Array_from_def sample_wallet_def)

lemma sample_json1: "JSON_stringify (Array_from (secretKey (sample_generated 3))) = ''[3,9]''"
  by (simp add: JSON_stringify_def Array_from_def sample_generated_def)

text \<open>
  Claim C8. Every run of the key generator writes the secret key of the keypair it generated, as
  a JSON array of bytes, to \<open>wallet/dev-wallet.json\<close> below the script's directory
  (\<open>cluster1\<close>), and it creates the wallet directory first exactly when \<open>existsSync\<close>
  reports it missing. The file-system calls are assumed not to fail: the script's directory
  exists, nothing but a directory is at the wallet directory's path, and no directory is at
  the wallet file's path.
\<close>

theorem keygen_writes_wallet:
  assumes "is_directory fs dirname"
    and "fs (walletDir dirname) = None \<or> fs (walletDir dirname) = Some Dir"
    and "fs (walletFile dirname) \<noteq> Some Dir"
  shows "walletFile dirname = dirname @ [''wallet'', ''dev-wallet.json''] \<and>
     keygen kp dirname fs =
       (ExistsSync (walletDir dirname) #
          (if existsSync fs (walletDir dirname) then [] else [MkdirSync (walletDir dirname) True]) @
          [WriteFileSync (walletFile dirname) (JSON_stringify (Array_from (secretKey kp)))],
        Inr ((if existsSync fs (walletDir dirname) then fs else fs(walletDir dirname \<mapsto> Dir))
               (walletFile dirname \<mapsto> File (JSON_stringify (Array_from (secretKey kp))))))"
proof (cases "fs (walletDir dirname) = None")
  case True
  with assms keygen_missing_dir [of fs dirname kp] show ?thesis
    by (simp add: existsSync_def wallet_paths(1)) (simp add: walletFile_def walletDir_def path_join_def)
next
  case False
  with assms keygen_existing_dir [of fs dirname kp] show ?thesis
    by (simp add: existsSync_def) (simp add: walletFile_def walletDir_def path_join_def)
qed

theorem keygen_writes_wallet_witness:
  "is_directory sample_fs sample_dirname \<and>
   sample_fs (walletDir sample_dirname) = None \<and>
   walletFile sample_dirname = [''repo'', ''ts'', ''cluster1'', ''wallet'', ''dev-wallet.json''] \<and>
   keygen sample_wallet sample_dirname sample_fs =
     ([ExistsSync (walletDir sample_dirname), MkdirSync (walletDir sample_dirname) True,
       WriteFileSync (walletFile sample_dirname) ''[7,255,0,42]''],
      Inr (sample_fs(walletDir sample_dirname \<mapsto> Dir,
                     walletFile sample_dirname \<mapsto> File ''[7,255,0,42]''))) \<and>
   keygen sample_wallet sample_dirname sample_fs_with_wallet =
     ([ExistsSync (walletDir sample_dirname),
       WriteFileSync (walletFile sample_dirname) ''[7,255,0,42]''],
      Inr (sample_fs_with_wallet(walletFile sample_dirname \<mapsto> File ''[7,255,0,42]'')))"
  using keygen_writes_wallet [of sample_fs sample_dirname sample_wallet]
    keygen_writes_wallet [of sample_fs_with_wallet sample_dirname sample_wallet]
  by (simp add: sample_fs_facts sample_json existsSync_def wallet_paths(1)) (simp add: sample_dirname_def)

text \<open>
  Claim C10. The key generator never asks whether the wallet file exists: its only existence check is
  on the directory. When a wallet file is already there, and in particular when an earlier
  run of the generator left one, the run replaces its contents with the new key.
\<close>

theorem keygen_overwrites_wallet:
  "ExistsSync (walletFile dirname) \<notin> set (fst (keygen kp dirname fs)) \<and>
   (fs (walletDir dirname) = Some Dir \<and> fs (walletFile dirname) = Some (File old) \<longrightarrow>
      keygen kp dirname fs =
        ([ExistsSync (walletDir dirname),
          WriteFileSync (walletFile dirname) (JSON_stringify (Array_from (secretKey kp)))],
         Inr (fs(walletFile dirname \<mapsto> File (JSON_stringify (Array_from (secretKey kp))))))) \<and>
   (keygen kp0 dirname fs0 = (calls0, Inr fs) \<longrightarrow>
      fs (walletFile dirname) = Some (File (JSON_stringify (Array_from (secretKey kp0)))) \<and>
      keygen kp dirname fs =
        ([ExistsSync (walletDir dirname),
          WriteFileSync (walletFile dirname) (JSON_stringify (Array_from (secretKey kp)))],
         Inr (fs(walletFile dirname \<mapsto> File (JSON_stringify (Array_from (secretKey kp)))))))"
proof (intro conjI impI)
  show "ExistsSync (walletFile dirname) \<notin> set (fst (keygen kp dirname fs))"
    by (simp add: keygen_def Let_def wallet_paths(4) split: sum.splits)
next
  assume "fs (walletDir dirname) = Some Dir \<and> fs (walletFile dirname) = Some (File old)"
  then show "keygen kp dirname fs =
        ([ExistsSync (walletDir dirname),
          WriteFileSync (walletFile dirname) (JSON_stringify (Array_from (secretKey kp)))],
         Inr (fs(walletFile dirname \<mapsto> File (JSON_stringify (Array_from (secretKey kp))))))"
    by (intro keygen_existing_dir) simp_all
next
  assume first: "keygen kp0 dirname fs0 = (calls0, Inr fs)"
  from keygen_success_state [OF first]
  show "fs (walletFile dirname) = Some (File (JSON_stringify (Array_from (secretKey kp0))))"
    by simp
  from keygen_success_state [OF first]
  show "keygen kp dirname fs =
        ([ExistsSync (walletDir dirname),
          WriteFileSync (walletFile dirname) (JSON_stringify (Array_from (secretKey kp)))],
         Inr (fs(walletFile dirname \<mapsto> File (JSON_stringify (Array_from (secretKey kp))))))"
    by (intro keygen_existing_dir) simp_all
qed

theorem keygen_overwrites_wallet_witness:
  "keygen (sample_generated 3) sample_dirname sample_fs =
     ([ExistsSync (walletDir sample_dirname), MkdirSync (walletDir sample_dirname) True,
       WriteFileSync (walletFile sample_dirname) ''[3,9]''],
      Inr (sample_fs(walletDir sample_dirname \<mapsto> Dir,
                     walletFile sample_dirname \<mapsto> File ''[3,9]''))) \<and>
   keygen sample_wallet sample_dirname
       (sample_fs(walletDir sample_dirname \<mapsto> Dir, walletFile sample_dirname \<mapsto> File ''[3,9]'')) =
     ([ExistsSync (walletDir sample_dirname),
       WriteFileSync (walletFile sample_dirname) ''[7,255,0,42]''],
      Inr (sample_fs(walletDir sample_dirname \<mapsto> Dir,
                     walletFile sample_dirname \<mapsto> File ''[7,255,0,42]'')))"
proof -
  let ?fs1 = "sample_fs(walletDir sample_dirname \<mapsto> Dir, walletFile sample_dirname \<mapsto> File ''[3,9]'')"
  have first: "keygen (sample_generated 3) sample_dirname sample_fs =
     ([ExistsSync (walletDir sample_dirname), MkdirSync (walletDir sample_dirname) True,
       WriteFileSync (walletFile sample_dirname) ''[3,9]''], Inr ?fs1)"
    using keygen_missing_dir [of sample_fs sample_dirname "sample_generated 3"]
    by (simp add: sample_fs_facts sample_json1)
  have dir: "?fs1 (walletDir sample_dirname) = Some Dir \<and>
             ?fs1 (walletFile sample_dirname) = Some (File ''[3,9]'')"
    by (simp add: wallet_paths)
  note inst = keygen_overwrites_wallet [of sample_dirname sample_wallet ?fs1 "''[3,9]''"]
  from inst dir have second: "keygen sample_wallet sample_dirname ?fs1 =
     ([ExistsSync (walletDir sample_dirname),
       WriteFileSync (walletFile sample_dirname)
         (JSON_stringify (Array_from (secretKey sample_wallet)))],
      Inr (?fs1(walletFile sample_dirname \<mapsto>
                  File (JSON_stringify (Array_from (secretKey sample_wallet))))))"
    by blast
  show ?thesis
    using first second by (simp add: sample_json)
qed

section \<open>Properties of the fee computation\<close>

lemma bigint_div_nonneg:
  "0 \<le> a \<Longrightarrow> 0 < b \<Longrightarrow> bigint_div a b = Inr (a div b)"
  by (cases "a = 0") (simp_all add: bigint_div_def)

lemma bigint_div_exact:
  assumes b: "b \<noteq> 0" and d: "b dvd a"
  shows "bigint_div a b = Inr (a div b)"
proof -
  from d obtain k where k: "a = b * k" ..
  have q: "\<bar>b * k\<bar> div \<bar>b\<bar> = \<bar>k\<bar>"
    using b by (simp add: abs_mult)
  have "sgn b * sgn b = 1"
    using b by (simp add: sgn_if)
  then have s: "sgn (b * k) * sgn b = sgn k"
    by (simp add: sgn_mult mult.commute mult.left_commute)
  have "sgn (b * k) * sgn b * (\<bar>b * k\<bar> div \<bar>b\<bar>) = k"
    by (simp only: q s sgn_mult_abs)
  with b k show ?thesis
    by (simp add: bigint_div_def)
qed

lemma bigint_div_truncates: "bigint_div (- 7) 2 = Inr (- 3) \<and> (- 7 :: int) div 2 = - 4"
  by (simp add: bigint_div_def)

lemma fee_nonneg_amount:
  "0 \<le> amount \<Longrightarrow>
     fee amount = Inr (min (amount * transfer_TRANSFER_FEE_BASIS_POINTS div 10000) transfer_MAX_FEE)"
  by (simp add: fee_def calculatedFee_def bigint_div_nonneg transfer_TRANSFER_FEE_BASIS_POINTS_def min_def)

lemma transfer_fee_divisible:
  "10000 dvd transferAmount tokens * transfer_TRANSFER_FEE_BASIS_POINTS"
  by (simp add: transferAmount_def transfer_TRANSFER_FEE_BASIS_POINTS_def transfer_DECIMALS_def)

lemma fee_scaled_amount:
  "fee (transferAmount tokens) =
     Inr (min (transferAmount tokens * transfer_TRANSFER_FEE_BASIS_POINTS div 10000) transfer_MAX_FEE)"
  using transfer_fee_divisible [of tokens]
  by (simp add: fee_def calculatedFee_def bigint_div_exact min_def)

lemma spl_transfer_sdk_calls:
  "sdk_calls (fst (spl_transfer wallet env tokens)) =
     (let fromAta = AssociatedTokenAddress transfer_mint (publicKey wallet)
                      TOKEN_2022_PROGRAM_ID ASSOCIATED_TOKEN_PROGRAM_ID;
          toAta = AssociatedTokenAddress transfer_mint (publicKey (tr_generate env))
                      TOKEN_2022_PROGRAM_ID ASSOCIATED_TOKEN_PROGRAM_ID;
          create = SendAndConfirmTransaction
                     [CreateAssociatedTokenAccount (publicKey wallet) toAta
                        (publicKey (tr_generate env)) transfer_mint
                        TOKEN_2022_PROGRAM_ID ASSOCIATED_TOKEN_PROGRAM_ID] [wallet];
          transfer =
            [TransferCheckedWithFee wallet fromAta transfer_mint toAta (publicKey wallet)
               (transferAmount tokens) transfer_DECIMALS
               (min (transferAmount tokens * transfer_TRANSFER_FEE_BASIS_POINTS div 10000)
                  transfer_MAX_FEE)
               TOKEN_2022_PROGRAM_ID] @
            (case tr_transferCheckedWithFee env of
               Inl _ \<Rightarrow> []
             | Inr _ \<Rightarrow> [GetAccount toAta TOKEN_2022_PROGRAM_ID])
      in GetAccountInfo toAta #
         (case tr_getAccountInfo env of
            Inl _ \<Rightarrow> []
          | Inr None \<Rightarrow> create # (case tr_createAta env of Inl _ \<Rightarrow> [] | Inr _ \<Rightarrow> transfer)
          | Inr (Some _) \<Rightarrow> transfer))"
  by (simp add: spl_transfer_def spl_transfer_body_def run_defs sdk_calls_def to_def Let_def
      add_def new_Transaction_def fee_scaled_amount
      split: sum.splits option.splits prod.splits abort.splits)

lemma transfer_call_shape:
  assumes "c \<in> set (sdk_calls (fst (spl_transfer wallet env tokens)))"
    and "is_TransferCheckedWithFee c"
  shows "c = TransferCheckedWithFee wallet
              (AssociatedTokenAddress transfer_mint (publicKey wallet)
                 TOKEN_2022_PROGRAM_ID ASSOCIATED_TOKEN_PROGRAM_ID)
              transfer_mint
              (AssociatedTokenAddress transfer_mint (publicKey (tr_generate env))
                 TOKEN_2022_PROGRAM_ID ASSOCIATED_TOKEN_PROGRAM_ID)
              (publicKey wallet) (transferAmount tokens) transfer_DECIMALS
              (min (transferAmount tokens * transfer_TRANSFER_FEE_BASIS_POINTS div 10000)
                 transfer_MAX_FEE)
              TOKEN_2022_PROGRAM_ID"
  using assms
  by (auto simp: spl_transfer_sdk_calls Let_def split: sum.splits option.splits)

lemma transfer_first_call:
  "hd (sdk_calls (fst (spl_transfer wallet env tokens))) =
     GetAccountInfo (AssociatedTokenAddress transfer_mint (publicKey (tr_generate env))
        TOKEN_2022_PROGRAM_ID ASSOCIATED_TOKEN_PROGRAM_ID)"
  by (simp add: spl_transfer_sdk_calls Let_def)

lemma sample_transfer_calls:
  "sdk_calls (fst (spl_transfer sample_wallet (sample_transfer_env n) TRANSFER_AMOUNT)) =
    [GetAccountInfo (AssociatedTokenAddress transfer_mint (GeneratedKey n)
        TOKEN_2022_PROGRAM_ID ASSOCIATED_TOKEN_PROGRAM_ID),
     SendAndConfirmTransaction
       [CreateAssociatedTokenAccount (Base58 ''WALLET'')
          (AssociatedTokenAddress transfer_mint (GeneratedKey n)
             TOKEN_2022_PROGRAM_ID ASSOCIATED_TOKEN_PROGRAM_ID)
          (GeneratedKey n) transfer_mint TOKEN_2022_PROGRAM_ID ASSOCIATED_TOKEN_PROGRAM_ID]
       [sample_wallet],
     TransferCheckedWithFee sample_wallet
       (AssociatedTokenAddress transfer_mint (Base58 ''WALLET'')
          TOKEN_2022_PROGRAM_ID ASSOCIATED_TOKEN_PROGRAM_ID)
       transfer_mint
       (AssociatedTokenAddress transfer_mint (GeneratedKey n)
          TOKEN_2022_PROGRAM_ID ASSOCIATED_TOKEN_PROGRAM_ID)
       (Base58 ''WALLET'') 100000000000 9 1000000000 TOKEN_2022_PROGRAM_ID,
     GetAccount (AssociatedTokenAddress transfer_mint (GeneratedKey n)
        TOKEN_2022_PROGRAM_ID ASSOCIATED_TOKEN_PROGRAM_ID) TOKEN_2022_PROGRAM_ID]"
  by (simp add: spl_transfer_sdk_calls sample_transfer_env_def sample_generated_def
      TRANSFER_AMOUNT_def transferAmount_def transfer_DECIMALS_def
      transfer_TRANSFER_FEE_BASIS_POINTS_def transfer_MAX_FEE_def Let_def sample_wallet_def)

text \<open>
  Claim C1. For every transfer amount (a token count scaled by \<open>10 ^ DECIMALS\<close>, and also every
  non-negative amount) the fee the script declares is
  \<open>min (amount * TRANSFER_FEE_BASIS_POINTS div 10000) MAX_FEE\<close>, computed with BigInt's
  truncating division; the transfer call of a run carries that amount and that fee; for
  \<open>100 * 10 ^ 9\<close> the fee is exactly \<open>10 ^ 9\<close>, the cap.
\<close>

theorem declared_fee_is_capped_floor:
  "fee (transferAmount tokens) =
     Inr (min (transferAmount tokens * transfer_TRANSFER_FEE_BASIS_POINTS div 10000) transfer_MAX_FEE) \<and>
   (0 \<le> amount \<longrightarrow>
      fee amount = Inr (min (amount * transfer_TRANSFER_FEE_BASIS_POINTS div 10000) transfer_MAX_FEE)) \<and>
   fee (100 * 10 ^ 9) = Inr (10 ^ 9) \<and>
   (\<forall>c \<in> set (sdk_calls (fst (spl_transfer wallet env tokens))).
      is_TransferCheckedWithFee c \<longrightarrow>
        tf_amount c = transferAmount tokens \<and>
        tf_fee c = min (tf_amount c * transfer_TRANSFER_FEE_BASIS_POINTS div 10000) transfer_MAX_FEE)"
proof (intro conjI impI ballI)
  show "fee (transferAmount tokens) =
     Inr (min (transferAmount tokens * transfer_TRANSFER_FEE_BASIS_POINTS div 10000) transfer_MAX_FEE)"
    by (rule fee_scaled_amount)
next
  assume "0 \<le> amount"
  then show "fee amount =
      Inr (min (amount * transfer_TRANSFER_FEE_BASIS_POINTS div 10000) transfer_MAX_FEE)"
    by (rule fee_nonneg_amount)
next
  show "fee (100 * 10 ^ 9) = Inr (10 ^ 9)"
    by (simp add: fee_nonneg_amount transfer_TRANSFER_FEE_BASIS_POINTS_def transfer_MAX_FEE_def)
next
  fix c
  assume c: "c \<in> set (sdk_calls (fst (spl_transfer wallet env tokens)))"
    and t: "is_TransferCheckedWithFee c"
  from transfer_call_shape [OF c t]
  have "tf_amount c = transferAmount tokens \<and>
        tf_fee c = min (transferAmount tokens * transfer_TRANSFER_FEE_BASIS_POINTS div 10000)
                     transfer_MAX_FEE"
    by simp
  then show "tf_amount c = transferAmount tokens"
    and "tf_fee c = min (tf_amount c * transfer_TRANSFER_FEE_BASIS_POINTS div 10000) transfer_MAX_FEE"
    by simp_all
qed

theorem declared_fee_is_capped_floor_witness:
  "(0::int) \<le> 12345 \<and> fee 12345 = Inr 123 \<and>
   (\<exists>c \<in> set (sdk_calls (fst (spl_transfer sample_wallet (sample_transfer_env 2) TRANSFER_AMOUNT))).
      is_TransferCheckedWithFee c \<and> tf_amount c = 100 * 10 ^ 9 \<and> tf_fee c = 10 ^ 9)"
proof -
  let ?c = "TransferCheckedWithFee sample_wallet
       (AssociatedTokenAddress transfer_mint (Base58 ''WALLET'')
          TOKEN_2022_PROGRAM_ID ASSOCIATED_TOKEN_PROGRAM_ID)
       transfer_mint
       (AssociatedTokenAddress transfer_mint (GeneratedKey 2)
          TOKEN_2022_PROGRAM_ID ASSOCIATED_TOKEN_PROGRAM_ID)
       (Base58 ''WALLET'') 100000000000 9 1000000000 TOKEN_2022_PROGRAM_ID"
  have m: "?c \<in> set (sdk_calls (fst (spl_transfer sample_wallet (sample_transfer_env 2) TRANSFER_AMOUNT)))"
    by (simp add: sample_transfer_calls)
  have k: "is_TransferCheckedWithFee ?c" by simp
  note inst = declared_fee_is_capped_floor
    [of TRANSFER_AMOUNT 12345 sample_wallet "sample_transfer_env 2"]
  from inst have f: "fee 12345 = Inr 123"
    by (simp add: transfer_TRANSFER_FEE_BASIS_POINTS_def transfer_MAX_FEE_def)
  from inst m k have "tf_amount ?c = transferAmount TRANSFER_AMOUNT \<and>
     tf_fee ?c = min (tf_amount ?c * transfer_TRANSFER_FEE_BASIS_POINTS div 10000) transfer_MAX_FEE"
    by blast
  then have "tf_amount ?c = 100 * 10 ^ 9 \<and> tf_fee ?c = 10 ^ 9"
    by simp
  with m k f show ?thesis by (intro conjI bexI [of _ ?c]) simp_all
qed

text \<open>
  Claim C9. For every non-negative transfer amount the computed fee is at most \<open>MAX_FEE\<close> and at
  most the amount itself (and it is not negative).
\<close>

theorem fee_bounded:
  "0 \<le> amount \<Longrightarrow>
     \<exists>f. fee amount = Inr f \<and> 0 \<le> f \<and> f \<le> transfer_MAX_FEE \<and> f \<le> amount"
proof -
  assume a: "0 \<le> amount"
  have "amount * 100 div 10000 \<le> amount"
  proof -
    have "amount * 100 div 10000 \<le> amount * 100 div 100"
      using a by (intro zdiv_mono2) simp_all
    then show ?thesis by simp
  qed
  moreover have "0 \<le> amount * 100 div 10000"
    using a by (simp add: pos_imp_zdiv_nonneg_iff)
  ultimately show ?thesis
    using a by (simp add: fee_nonneg_amount transfer_TRANSFER_FEE_BASIS_POINTS_def
        transfer_MAX_FEE_def min_def)
qed

theorem fee_bounded_witness:
  "(0::int) \<le> 12345 \<and> fee 12345 = Inr 123 \<and> (123::int) \<le> transfer_MAX_FEE \<and> (123::int) \<le> 12345"
  using fee_bounded [of 12345]
  by (simp add: fee_nonneg_amount transfer_TRANSFER_FEE_BASIS_POINTS_def transfer_MAX_FEE_def)

section \<open>The recipient of spl_transfer.ts\<close>

text \<open>
  Claim C6. As stated (the recipient is a literal constant, the same in every two runs) the claim
  fails: two runs in which \<open>Keypair.generate()\<close> returns different keys address different
  recipients.
\<close>

theorem recipient_not_fixed_counterexample:
  "to (sample_transfer_env 2) \<noteq> to (sample_transfer_env 3) \<and>
   hd (sdk_calls (fst (spl_transfer sample_wallet (sample_transfer_env 2) TRANSFER_AMOUNT))) \<noteq>
   hd (sdk_calls (fst (spl_transfer sample_wallet (sample_transfer_env 3) TRANSFER_AMOUNT)))"
  by (simp add: sample_transfer_calls) (simp add: to_def sample_transfer_env_def sample_generated_def)

text \<open>
  Claim C6. amended. The recipient of a run is the public key of the keypair that
  \<open>Keypair.generate()\<close> returns when the script is loaded: the account looked up first and
  the destination of the transfer are derived from it. The mint address is the literal
  constant.
\<close>

theorem recipient_is_generated_key:
  "to env = publicKey (tr_generate env) \<and>
   transfer_mint = Base58 ''75qoQ7wo4Zax7EvZ3mGj9toiAL9HDNkuEDfRmF19T9tA'' \<and>
   hd (sdk_calls (fst (spl_transfer wallet env tokens))) =
     GetAccountInfo (AssociatedTokenAddress transfer_mint (publicKey (tr_generate env))
        TOKEN_2022_PROGRAM_ID ASSOCIATED_TOKEN_PROGRAM_ID) \<and>
   (\<forall>c \<in> set (sdk_calls (fst (spl_transfer wallet env tokens))).
      is_TransferCheckedWithFee c \<longrightarrow>
        tf_mint c = transfer_mint \<and>
        tf_destination c =
          AssociatedTokenAddress transfer_mint (publicKey (tr_generate env))
            TOKEN_2022_PROGRAM_ID ASSOCIATED_TOKEN_PROGRAM_ID)"
proof (intro conjI ballI impI)
  show "to env = publicKey (tr_generate env)"
    by (simp add: to_def)
  show "transfer_mint = Base58 ''75qoQ7wo4Zax7EvZ3mGj9toiAL9HDNkuEDfRmF19T9tA''"
    by (rule transfer_mint_def)
  show "hd (sdk_calls (fst (spl_transfer wallet env tokens))) =
     GetAccountInfo (AssociatedTokenAddress transfer_mint (publicKey (tr_generate env))
        TOKEN_2022_PROGRAM_ID ASSOCIATED_TOKEN_PROGRAM_ID)"
    by (rule transfer_first_call)
next
  fix c
  assume "c \<in> set (sdk_calls (fst (spl_transfer wallet env tokens)))"
    and "is_TransferCheckedWithFee c"
  then have c: "c = TransferCheckedWithFee wallet
              (AssociatedTokenAddress transfer_mint (publicKey wallet)
                 TOKEN_2022_PROGRAM_ID ASSOCIATED_TOKEN_PROGRAM_ID)
              transfer_mint
              (AssociatedTokenAddress transfer_mint (publicKey (tr_generate env))
                 TOKEN_2022_PROGRAM_ID ASSOCIATED_TOKEN_PROGRAM_ID)
              (publicKey wallet) (transferAmount tokens) transfer_DECIMALS
              (min (transferAmount tokens * transfer_TRANSFER_FEE_BASIS_POINTS div 10000)
                 transfer_MAX_FEE)
              TOKEN_2022_PROGRAM_ID"
    by (rule transfer_call_shape)
  show "tf_mint c = transfer_mint"
    by (subst c) simp
  show "tf_destination c =
          AssociatedTokenAddress transfer_mint (publicKey (tr_generate env))
            TOKEN_2022_PROGRAM_ID ASSOCIATED_TOKEN_PROGRAM_ID"
    by (subst c) simp
qed

theorem recipient_is_generated_key_witness:
  "\<exists>c \<in> set (sdk_calls (fst (spl_transfer sample_wallet (sample_transfer_env 2) TRANSFER_AMOUNT))).
      is_TransferCheckedWithFee c \<and>
      tf_destination c =
        AssociatedTokenAddress transfer_mint (GeneratedKey 2)
          TOKEN_2022_PROGRAM_ID ASSOCIATED_TOKEN_PROGRAM_ID"
proof -
  let ?c = "TransferCheckedWithFee sample_wallet
       (AssociatedTokenAddress transfer_mint (Base58 ''WALLET'')
          TOKEN_2022_PROGRAM_ID ASSOCIATED_TOKEN_PROGRAM_ID)
       transfer_mint
       (AssociatedTokenAddress transfer_mint (GeneratedKey 2)
          TOKEN_2022_PROGRAM_ID ASSOCIATED_TOKEN_PROGRAM_ID)
       (Base58 ''WALLET'') 100000000000 9 1000000000 TOKEN_2022_PROGRAM_ID"
  have m: "?c \<in> set (sdk_calls (fst (spl_transfer sample_wallet (sample_transfer_env 2) TRANSFER_AMOUNT)))"
    by (simp add: sample_transfer_calls)
  have k: "is_TransferCheckedWithFee ?c" by simp
  have g: "publicKey (tr_generate (sample_transfer_env 2)) = GeneratedKey 2"
    by (simp add: sample_transfer_env_def sample_generated_def)
  note inst = recipient_is_generated_key [of "sample_transfer_env 2" sample_wallet TRANSFER_AMOUNT]
  then have "\<forall>c \<in> set (sdk_calls (fst (spl_transfer sample_wallet (sample_transfer_env 2) TRANSFER_AMOUNT))).
      is_TransferCheckedWithFee c \<longrightarrow>
        tf_mint c = transfer_mint \<and>
        tf_destination c =
          AssociatedTokenAddress transfer_mint (publicKey (tr_generate (sample_transfer_env 2)))
            TOKEN_2022_PROGRAM_ID ASSOCIATED_TOKEN_PROGRAM_ID"
    by (elim conjE)
  from bspec [OF this m] k have "tf_destination ?c =
          AssociatedTokenAddress transfer_mint (publicKey (tr_generate (sample_transfer_env 2)))
            TOKEN_2022_PROGRAM_ID ASSOCIATED_TOKEN_PROGRAM_ID"
    by (elim impE conjE)
  with g have "tf_destination ?c =
        AssociatedTokenAddress transfer_mint (GeneratedKey 2)
          TOKEN_2022_PROGRAM_ID ASSOCIATED_TOKEN_PROGRAM_ID"
    by simp
  with m k show ?thesis by (intro bexI [of _ ?c] conjI)
qed

section \<open>Properties of airdrop.ts\<close>

lemma airdrop_funded_run:
  assumes "ad_getBalance env = Inr balance"
    and "(1 / 2) * of_int lps \<le> (of_int balance :: rat)"
  shows "airdrop lps wallet env =
           ([Sdk (GetBalance (publicKey wallet)), Console SufficientBalance], Inr ())"
  using assms by (simp add: airdrop_def airdrop_body_def run_defs)

lemma airdrop_underfunded_requests:
  assumes "ad_getBalance env = Inr balance"
    and "(of_int balance :: rat) < (1 / 2) * of_int lps"
  shows "sdk_calls (fst (airdrop lps wallet env)) ! 1 = RequestAirdrop (publicKey wallet) (2 * lps)"
  using assms
  by (simp add: airdrop_def airdrop_body_def run_defs sdk_calls_def split: sum.splits prod.splits abort.splits)

text \<open>
  Claim C3. In every run in which the queried balance is at least \<open>0.5 * LAMPORTS_PER_SOL\<close> the
  script returns after the balance query: it requests no airdrop and makes no other
  state-changing call.
\<close>

theorem airdrop_funded_no_mutation:
  assumes "ad_getBalance env = Inr balance"
    and "(1 / 2) * of_int lps \<le> (of_int balance :: rat)"
  shows "airdrop lps wallet env =
           ([Sdk (GetBalance (publicKey wallet)), Console SufficientBalance], Inr ()) \<and>
         sdk_calls (fst (airdrop lps wallet env)) = [GetBalance (publicKey wallet)] \<and>
         filter mutating (sdk_calls (fst (airdrop lps wallet env))) = []"
  using airdrop_funded_run [OF assms, of wallet] by (simp add: sdk_calls_def)

theorem airdrop_funded_no_mutation_witness:
  "ad_getBalance (sample_airdrop_env 500000000) = Inr 500000000 \<and>
   (1 / 2) * of_int 1000000000 \<le> (of_int 500000000 :: rat) \<and>
   airdrop 1000000000 sample_wallet (sample_airdrop_env 500000000) =
     ([Sdk (GetBalance (Base58 ''WALLET'')), Console SufficientBalance], Inr ()) \<and>
   filter mutating (sdk_calls (fst (airdrop 1000000000 sample_wallet (sample_airdrop_env 500000000)))) = []"
proof -
  have h1: "ad_getBalance (sample_airdrop_env 500000000) = Inr 500000000"
    by (simp add: sample_airdrop_env_def)
  have h2: "(1 / 2) * of_int 1000000000 \<le> (of_int 500000000 :: rat)"
    by simp
  from airdrop_funded_no_mutation [OF h1 h2, of sample_wallet] h1 h2
  show ?thesis by (simp add: sample_wallet_def sdk_calls_def)
qed

section \<open>Properties of spl_init.ts\<close>

text \<open>
  Claim C2. The transaction the mint initializer submits holds exactly three instructions, in this
  order: account creation, transfer-fee-config initialization, mint initialization. It is
  the only transaction of a run, submitted once the rent query has answered.
\<close>

theorem spl_init_instruction_order:
  "sdk_calls (fst (spl_init wallet env)) =
     GetMinimumBalanceForRentExemption (in_getMintLen env [TransferFeeConfig]) #
     (case in_getMinimumBalance env of
        Inl _ \<Rightarrow> []
      | Inr mintLamports \<Rightarrow>
          [SendAndConfirmTransaction
             (instructions (init_transaction wallet (publicKey (in_generate env))
                (in_getMintLen env [TransferFeeConfig]) mintLamports))
             [wallet, in_generate env]]) \<and>
   instructions (init_transaction wallet mint mintLen rent) =
     [CreateAccount (publicKey wallet) mint mintLen rent TOKEN_2022_PROGRAM_ID,
      InitializeTransferFeeConfig mint (publicKey wallet) (publicKey wallet) 100 1000000000
        TOKEN_2022_PROGRAM_ID,
      InitializeMint mint 9 (publicKey wallet) None TOKEN_2022_PROGRAM_ID] \<and>
   length (instructions (init_transaction wallet mint mintLen rent)) = 3 \<and>
   position is_CreateAccount (instructions (init_transaction wallet mint mintLen rent)) = Some 0 \<and>
   position is_InitializeTransferFeeConfig
     (instructions (init_transaction wallet mint mintLen rent)) = Some 1 \<and>
   position is_InitializeMint (instructions (init_transaction wallet mint mintLen rent)) = Some 2"
  by (simp add: spl_init_def spl_init_body_def run_defs sdk_calls_def Let_def init_transaction_def
      add_def new_Transaction_def init_TRANSFER_FEE_BASIS_POINTS_def init_MAX_FEE_def init_DECIMALS_def
      split: sum.splits prod.splits abort.splits)

section \<open>Properties of spl_mint.ts\<close>

lemma spl_mint_sdk_calls:
  "sdk_calls (fst (spl_mint wallet env)) =
     (let ata = AssociatedTokenAddress mint_mint (publicKey wallet)
                  TOKEN_2022_PROGRAM_ID ASSOCIATED_TOKEN_PROGRAM_ID;
          create = SendAndConfirmTransaction
                     [CreateAssociatedTokenAccount (publicKey wallet) ata (publicKey wallet)
                        mint_mint TOKEN_2022_PROGRAM_ID ASSOCIATED_TOKEN_PROGRAM_ID] [wallet];
          mint = MintTo wallet mint_mint ata wallet tokensToMint TOKEN_2022_PROGRAM_ID
      in GetAccountInfo ata #
         (case mn_getAccountInfo env of
            Inl _ \<Rightarrow> []
          | Inr None \<Rightarrow> create # (case mn_createAta env of Inl _ \<Rightarrow> [] | Inr _ \<Rightarrow> [mint])
          | Inr (Some _) \<Rightarrow> [mint]))"
  by (simp add: spl_mint_def spl_mint_body_def run_defs sdk_calls_def Let_def
      add_def new_Transaction_def
      split: sum.splits option.splits prod.splits abort.splits)

text \<open>
  Claim C5. When the node reports the associated token account as existing, the run submits no
  creation transaction and only mints, \<open>AMOUNT_TO_MINT * 10 ^ DECIMALS\<close> units. When the
  account is absent, a transaction of its own creates it first, and minting follows once
  that transaction is confirmed.
\<close>

theorem spl_mint_resumable:
  "(mn_getAccountInfo env = Inr (Some info) \<longrightarrow>
      sdk_calls (fst (spl_mint wallet env)) =
        [GetAccountInfo (AssociatedTokenAddress mint_mint (publicKey wallet)
           TOKEN_2022_PROGRAM_ID ASSOCIATED_TOKEN_PROGRAM_ID),
         MintTo wallet mint_mint
           (AssociatedTokenAddress mint_mint (publicKey wallet)
              TOKEN_2022_PROGRAM_ID ASSOCIATED_TOKEN_PROGRAM_ID)
           wallet (AMOUNT_TO_MINT * 10 ^ mint_DECIMALS) TOKEN_2022_PROGRAM_ID]) \<and>
   (mn_getAccountInfo env = Inr None \<longrightarrow>
      sdk_calls (fst (spl_mint wallet env)) =
        GetAccountInfo (AssociatedTokenAddress mint_mint (publicKey wallet)
           TOKEN_2022_PROGRAM_ID ASSOCIATED_TOKEN_PROGRAM_ID) #
        SendAndConfirmTransaction
          [CreateAssociatedTokenAccount (publicKey wallet)
             (AssociatedTokenAddress mint_mint (publicKey wallet)
                TOKEN_2022_PROGRAM_ID ASSOCIATED_TOKEN_PROGRAM_ID)
             (publicKey wallet) mint_mint TOKEN_2022_PROGRAM_ID ASSOCIATED_TOKEN_PROGRAM_ID]
          [wallet] #
        (case mn_createAta env of
           Inl _ \<Rightarrow> []
         | Inr _ \<Rightarrow>
             [MintTo wallet mint_mint
                (AssociatedTokenAddress mint_mint (publicKey wallet)
                   TOKEN_2022_PROGRAM_ID ASSOCIATED_TOKEN_PROGRAM_ID)
                wallet (AMOUNT_TO_MINT * 10 ^ mint_DECIMALS) TOKEN_2022_PROGRAM_ID]))"
  by (simp add: spl_mint_sdk_calls Let_def tokensToMint_def)

theorem spl_mint_resumable_witness:
  "mn_getAccountInfo (sample_mint_env (Some sample_account_info)) = Inr (Some sample_account_info) \<and>
   sdk_calls (fst (spl_mint sample_wallet (sample_mint_env (Some sample_account_info)))) =
     [GetAccountInfo (AssociatedTokenAddress mint_mint (Base58 ''WALLET'')
        TOKEN_2022_PROGRAM_ID ASSOCIATED_TOKEN_PROGRAM_ID),
      MintTo sample_wallet mint_mint
        (AssociatedTokenAddress mint_mint (Base58 ''WALLET'')
           TOKEN_2022_PROGRAM_ID ASSOCIATED_TOKEN_PROGRAM_ID)
        sample_wallet 1000000000000000000 TOKEN_2022_PROGRAM_ID] \<and>
   mn_getAccountInfo (sample_mint_env None) = Inr None \<and>
   sdk_calls (fst (spl_mint sample_wallet (sample_mint_env None))) =
     [GetAccountInfo (AssociatedTokenAddress mint_mint (Base58 ''WALLET'')
        TOKEN_2022_PROGRAM_ID ASSOCIATED_TOKEN_PROGRAM_ID),
      SendAndConfirmTransaction
        [CreateAssociatedTokenAccount (Base58 ''WALLET'')
           (AssociatedTokenAddress mint_mint (Base58 ''WALLET'')
              TOKEN_2022_PROGRAM_ID ASSOCIATED_TOKEN_PROGRAM_ID)
           (Base58 ''WALLET'') mint_mint TOKEN_2022_PROGRAM_ID ASSOCIATED_TOKEN_PROGRAM_ID]
        [sample_wallet],
      MintTo sample_wallet mint_mint
        (AssociatedTokenAddress mint_mint (Base58 ''WALLET'')
           TOKEN_2022_PROGRAM_ID ASSOCIATED_TOKEN_PROGRAM_ID)
        sample_wallet 1000000000000000000 TOKEN_2022_PROGRAM_ID]"
  using spl_mint_resumable [of "sample_mint_env (Some sample_account_info)" sample_account_info sample_wallet]
    spl_mint_resumable [of "sample_mint_env None" sample_account_info sample_wallet]
  by (simp add: sample_mint_env_def AMOUNT_TO_MINT_def mint_DECIMALS_def)
     (simp add: sample_wallet_def)

section \<open>Properties of spl_metadata.ts\<close>




lemma metadata_catch_completes:
  assumes "handler_completes e"
  shows "metadata_catch e =
           ([Console (ErrorCreatingMetadata e),
             Console (if marker_found e then NftMismatchExplanation else GenericTroubleshooting)],
            Inr ())"
proof (cases e rule: handler_completes.cases)
  case 1
  then show ?thesis by (simp add: metadata_catch_def run_defs)
next
  case (2 m)
  then show ?thesis
    by (cases "m = []") (simp_all add: metadata_catch_def run_defs)
next
  case (3 b)
  then show ?thesis by (simp add: metadata_catch_def run_defs)
qed (use assms in simp_all)

lemma metadata_catch_fails:
  assumes "\<not> handler_completes e"
  shows "\<exists>t e'. metadata_catch e = (t, Inl (Throw e')) \<and>
           Console NftMismatchExplanation \<notin> set t \<and> Console GenericTroubleshooting \<notin> set t"
proof (cases e)
  case ThrownNull
  then show ?thesis by (simp add: metadata_catch_def run_defs)
next
  case ThrownUndefined
  then show ?thesis by (simp add: metadata_catch_def run_defs)
next
  case (Thrown msg)
  show ?thesis
  proof (cases msg)
    case Falsy
    with Thrown assms show ?thesis by simp
  next
    case (Str m)
    with Thrown assms show ?thesis by simp
  next
    case (NonString answer)
    with Thrown assms show ?thesis
      by (cases answer) (simp_all add: metadata_catch_def run_defs)
  next
    case (Unreadable x)
    with Thrown show ?thesis by (simp add: metadata_catch_def run_defs)
  qed
qed

lemma metadata_catch_no_calls: "sdk_calls (fst (metadata_catch e)) = []"
proof (cases "handler_completes e")
  case True
  then show ?thesis by (simp add: metadata_catch_completes sdk_calls_simps)
next
  case False
  then show ?thesis
    by (cases e rule: handler_completes.cases)
       (simp_all add: metadata_catch_def run_defs sdk_calls_simps)
qed

lemma validate_mint_result:
  "validate_mint mint env =
     (case md_getAccount env of
        Inl e \<Rightarrow> ([Sdk (UmiGetAccount mint), Console MintAccountUnverified], Inr ())
      | Inr a \<Rightarrow>
          if ma_exists a then ([Sdk (UmiGetAccount mint), Console MintAccountExists], Inr ())
          else ([Sdk (UmiGetAccount mint), Console MintAccountMissing], Inl (Exit 1)))"
  by (simp add: validate_mint_def run_defs split: sum.splits)

lemma choose_uri_result:
  "choose_uri cfg env =
     (if UPLOAD_METADATA_JSON cfg then
        (case md_uploadJson env of
           Inl e \<Rightarrow>
             ([Sdk (UploadJson \<lparr>mj_name = tm_name (TOKEN_METADATA cfg),
                                 mj_symbol = tm_symbol (TOKEN_METADATA cfg),
                                 mj_description = RICH_METADATA_description cfg\<rparr>)],
              Inl (Throw e))
         | Inr u \<Rightarrow>
             ([Sdk (UploadJson \<lparr>mj_name = tm_name (TOKEN_METADATA cfg),
                                 mj_symbol = tm_symbol (TOKEN_METADATA cfg),
                                 mj_description = RICH_METADATA_description cfg\<rparr>),
               Console (MetadataUploaded u)], Inr u))
      else if tm_uri (TOKEN_METADATA cfg) = [] \<or> length (tm_uri (TOKEN_METADATA cfg)) < 10 then
        ([Console UriError], Inl (Exit 1))
      else ([Console (UsingProvidedUri (tm_uri (TOKEN_METADATA cfg)))],
            Inr (tm_uri (TOKEN_METADATA cfg))))"
  by (simp add: choose_uri_def run_defs Let_def split: sum.splits)

lemma body_rejected:
  "mint_address_rejected cfg \<Longrightarrow>
     spl_metadata_body cfg signer env = ([Console MintAddressError], Inl (Exit 1))"
  by (simp add: spl_metadata_body_def mint_address_rejected_def run_defs)

lemma body_unparsed:
  "\<not> mint_address_rejected cfg \<Longrightarrow> md_publicKey env (MINT_ADDRESS cfg) = Inl e \<Longrightarrow>
     spl_metadata_body cfg signer env = ([], Inl (Throw e))"
  by (simp add: spl_metadata_body_def mint_address_rejected_def run_defs)

lemma body_parsed:
  "\<not> mint_address_rejected cfg \<Longrightarrow> md_publicKey env (MINT_ADDRESS cfg) = Inr mint \<Longrightarrow>
     spl_metadata_body cfg signer env =
       then_run (validate_mint mint env)
         (bind_run (choose_uri cfg env) (\<lambda>metadataUri.
            bind_run
              (await (UmiSendAndConfirm
                 \<lparr>cm_mint = mint, cm_mintAuthority = signer, cm_payer = signer,
                  cm_updateAuthority = signer,
                  cm_data = \<lparr>dv_name = tm_name (TOKEN_METADATA cfg),
                             dv_symbol = tm_symbol (TOKEN_METADATA cfg),
                             dv_uri = metadataUri,
                             dv_sellerFeeBasisPoints = 0,
                             dv_creators =
                               [\<lparr>cr_address = signer, cr_verified = True, cr_share = 100\<rparr>]\<rparr>,
                  cm_isMutable = True\<rparr>) (md_sendAndConfirm env))
              (\<lambda>result. return_run ())))"
  by (simp add: spl_metadata_body_def mint_address_rejected_def throwing_def bind_run_def Let_def)

lemma body_no_upload_bad_uri:
  assumes "\<not> UPLOAD_METADATA_JSON cfg"
    and "tm_uri (TOKEN_METADATA cfg) = [] \<or> length (tm_uri (TOKEN_METADATA cfg)) < 10"
    and "\<not> mint_address_rejected cfg"
    and "md_publicKey env (MINT_ADDRESS cfg) = Inr mint"
  shows "spl_metadata_body cfg signer env =
     (case md_getAccount env of
        Inl e \<Rightarrow> ([Sdk (UmiGetAccount mint), Console MintAccountUnverified, Console UriError],
                   Inl (Exit 1))
      | Inr a \<Rightarrow>
          if ma_exists a
          then ([Sdk (UmiGetAccount mint), Console MintAccountExists, Console UriError], Inl (Exit 1))
          else ([Sdk (UmiGetAccount mint), Console MintAccountMissing], Inl (Exit 1)))"
  using assms
  by (simp add: body_parsed validate_mint_result choose_uri_result then_run_def bind_run_def
      split: sum.splits)

lemma spl_metadata_exit:
  "spl_metadata_body cfg signer env = (t, Inl (Exit n)) \<Longrightarrow>
     spl_metadata cfg signer env = (t, Inl (Exit n))"
  by (simp add: spl_metadata_def try_catch_def)

lemma spl_metadata_caught:
  "spl_metadata_body cfg signer env = (t, Inl (Throw e)) \<Longrightarrow>
     spl_metadata cfg signer env = (t @ fst (metadata_catch e), snd (metadata_catch e))"
  by (simp add: spl_metadata_def try_catch_def split: prod.splits)

lemma spl_metadata_sdk_calls:
  "sdk_calls (fst (spl_metadata cfg signer env)) = sdk_calls (fst (spl_metadata_body cfg signer env))"
proof (cases "spl_metadata_body cfg signer env")
  case (Pair t r)
  show ?thesis
  proof (cases r)
    case (Inl a)
    show ?thesis
    proof (cases a)
      case (Throw e)
      with Pair Inl show ?thesis
        by (simp add: spl_metadata_caught sdk_calls_append metadata_catch_no_calls)
    next
      case (Exit n)
      with Pair Inl show ?thesis
        by (simp add: spl_metadata_def try_catch_def)
    qed
  next
    case (Inr u)
    with Pair show ?thesis
      by (simp add: spl_metadata_def try_catch_def)
  qed
qed




lemma sample_errors:
  "handler_completes sample_nft_error" "marker_found sample_nft_error"
  "handler_completes sample_funds_error" "\<not> marker_found sample_funds_error"
  "handler_completes sample_key_error" "\<not> marker_found sample_key_error"
  by (simp_all add: sample_nft_error_def sample_funds_error_def sample_key_error_def
      ErrorObject_def)


text \<open>
  Claim C4. As stated (with upload disabled and an empty or short URI the script exits before any
  network call) the claim fails: the mint account is looked up on the node before the URI is
  checked.
\<close>

theorem uri_check_follows_lookup_counterexample:
  "\<not> UPLOAD_METADATA_JSON (no_upload_config '''') \<and>
   tm_uri (TOKEN_METADATA (no_upload_config '''')) = [] \<and>
   spl_metadata (no_upload_config '''') (Base58 ''WALLET'') (sample_metadata_env (Inr ''sig'')) =
     ([Sdk (UmiGetAccount (Base58 ''5SY3Rna38Ay1SAQvswinezjdaeGv576LAfTv9Vo7dcft'')),
       Console MintAccountExists, Console UriError], Inl (Exit 1)) \<and>
   sdk_calls (fst (spl_metadata (no_upload_config '''') (Base58 ''WALLET'')
                     (sample_metadata_env (Inr ''sig'')))) \<noteq> []"
proof -
  have cfg: "\<not> UPLOAD_METADATA_JSON (no_upload_config '''')"
    "tm_uri (TOKEN_METADATA (no_upload_config '''')) = []"
    "MINT_ADDRESS (no_upload_config '''') = ''5SY3Rna38Ay1SAQvswinezjdaeGv576LAfTv9Vo7dcft''"
    by (simp_all add: no_upload_config_def repository_config_def)
  have ok: "\<not> mint_address_rejected (no_upload_config '''')"
    by (simp add: mint_address_rejected_def cfg(3))
  have env: "md_publicKey (sample_metadata_env (Inr ''sig'')) (MINT_ADDRESS (no_upload_config ''''))
               = Inr (Base58 ''5SY3Rna38Ay1SAQvswinezjdaeGv576LAfTv9Vo7dcft'')"
    "md_getAccount (sample_metadata_env (Inr ''sig'')) = Inr \<lparr>ma_exists = True\<rparr>"
    by (simp_all add: sample_metadata_env_def cfg(3))
  have body: "spl_metadata_body (no_upload_config '''') (Base58 ''WALLET'') (sample_metadata_env (Inr ''sig'')) =
     ([Sdk (UmiGetAccount (Base58 ''5SY3Rna38Ay1SAQvswinezjdaeGv576LAfTv9Vo7dcft'')),
       Console MintAccountExists, Console UriError], Inl (Exit 1))"
    using body_no_upload_bad_uri [OF cfg(1) _ ok env(1), of "Base58 ''WALLET''"] cfg(2) env(2)
    by simp
  from spl_metadata_exit [OF body] cfg show ?thesis
    by (simp add: sdk_calls_simps)
qed

lemma metadata_catch_events:
  "Console UriError \<notin> set (fst (metadata_catch e)) \<and> (\<forall>n. snd (metadata_catch e) \<noteq> Inl (Exit n))"
proof (cases "handler_completes e")
  case True
  then show ?thesis by (simp add: metadata_catch_completes)
next
  case False
  then show ?thesis
    by (cases e rule: handler_completes.cases) (simp_all add: metadata_catch_def run_defs)
qed

lemma spl_metadata_unparsed:
  assumes "\<not> mint_address_rejected cfg" and "md_publicKey env (MINT_ADDRESS cfg) = Inl e"
  shows "spl_metadata cfg signer env = metadata_catch e"
  using spl_metadata_caught [OF body_unparsed [OF assms], of signer] by simp

text \<open>
  Claim C4. amended. With upload disabled and a URI that is empty or shorter than 10 characters, a
  run uploads nothing and submits no transaction. When the mint address passes the
  placeholder and length test, the SDK's \<open>publicKey\<close> accepts it and the mint account is
  not reported missing, the run ends with the URI validation error and
  \<open>process.exit(1)\<close>, and its only network call is the read-only lookup of the mint
  account. When the address passes that test and \<open>publicKey\<close> refuses it, the run makes no
  network call and is the catch handler's alone: no URI error, no \<open>process.exit\<close>, and for
  an \<open>Error\<close> object the generic (or NFT) list and a normal end.
\<close>

theorem uri_check_before_any_mutation:
  assumes "\<not> UPLOAD_METADATA_JSON cfg"
    and "tm_uri (TOKEN_METADATA cfg) = [] \<or> length (tm_uri (TOKEN_METADATA cfg)) < 10"
  shows "filter mutating (sdk_calls (fst (spl_metadata cfg signer env))) = [] \<and>
    (\<not> (string_includes (MINT_ADDRESS cfg) ''<PASTE'' \<or> length (MINT_ADDRESS cfg) < 32) \<and>
     md_publicKey env (MINT_ADDRESS cfg) = Inr mint \<and>
     (\<forall>a. md_getAccount env = Inr a \<longrightarrow> ma_exists a) \<longrightarrow>
       snd (spl_metadata cfg signer env) = Inl (Exit 1) \<and>
       sdk_calls (fst (spl_metadata cfg signer env)) = [UmiGetAccount mint] \<and>
       last (fst (spl_metadata cfg signer env)) = Console UriError) \<and>
    (\<not> (string_includes (MINT_ADDRESS cfg) ''<PASTE'' \<or> length (MINT_ADDRESS cfg) < 32) \<and>
     md_publicKey env (MINT_ADDRESS cfg) = Inl e \<longrightarrow>
       spl_metadata cfg signer env = metadata_catch e \<and>
       sdk_calls (fst (spl_metadata cfg signer env)) = [] \<and>
       Console UriError \<notin> set (fst (spl_metadata cfg signer env)) \<and>
       (\<forall>n. snd (spl_metadata cfg signer env) \<noteq> Inl (Exit n)) \<and>
       (handler_completes e \<longrightarrow>
          spl_metadata cfg signer env =
            ([Console (ErrorCreatingMetadata e),
              Console (if marker_found e then NftMismatchExplanation
                       else GenericTroubleshooting)], Inr ())))"
proof (intro conjI impI)
  show "filter mutating (sdk_calls (fst (spl_metadata cfg signer env))) = []"
  proof (cases "mint_address_rejected cfg")
    case True
    then show ?thesis by (simp add: spl_metadata_sdk_calls body_rejected sdk_calls_simps)
  next
    case False
    show ?thesis
    proof (cases "md_publicKey env (MINT_ADDRESS cfg)")
      case (Inl e)
      with False show ?thesis by (simp add: spl_metadata_sdk_calls body_unparsed sdk_calls_simps)
    next
      case (Inr m)
      from body_no_upload_bad_uri [OF assms False Inr, of signer] show ?thesis
        by (simp add: spl_metadata_sdk_calls sdk_calls_simps split: sum.splits if_splits)
    qed
  qed
next
  assume h: "\<not> (string_includes (MINT_ADDRESS cfg) ''<PASTE'' \<or> length (MINT_ADDRESS cfg) < 32) \<and>
     md_publicKey env (MINT_ADDRESS cfg) = Inr mint \<and>
     (\<forall>a. md_getAccount env = Inr a \<longrightarrow> ma_exists a)"
  then have ok: "\<not> mint_address_rejected cfg" and p: "md_publicKey env (MINT_ADDRESS cfg) = Inr mint"
    and ex: "\<forall>a. md_getAccount env = Inr a \<longrightarrow> ma_exists a"
    by (simp_all add: mint_address_rejected_def)
  obtain t where b: "spl_metadata_body cfg signer env = (t, Inl (Exit 1))"
    and t: "sdk_calls t = [UmiGetAccount mint]" "last t = Console UriError"
    using body_no_upload_bad_uri [OF assms ok p, of signer] ex
    by (cases "md_getAccount env") (auto simp: sdk_calls_simps)
  from spl_metadata_exit [OF b] t
  show "snd (spl_metadata cfg signer env) = Inl (Exit 1)"
    and "sdk_calls (fst (spl_metadata cfg signer env)) = [UmiGetAccount mint]"
    and "last (fst (spl_metadata cfg signer env)) = Console UriError"
    by simp_all
next
  assume h: "\<not> (string_includes (MINT_ADDRESS cfg) ''<PASTE'' \<or> length (MINT_ADDRESS cfg) < 32) \<and>
     md_publicKey env (MINT_ADDRESS cfg) = Inl e"
  then have ok: "\<not> mint_address_rejected cfg" and p: "md_publicKey env (MINT_ADDRESS cfg) = Inl e"
    by (simp_all add: mint_address_rejected_def)
  show run: "spl_metadata cfg signer env = metadata_catch e"
    using ok p by (rule spl_metadata_unparsed)
  show "sdk_calls (fst (spl_metadata cfg signer env)) = []"
    by (simp add: run metadata_catch_no_calls)
  show "Console UriError \<notin> set (fst (spl_metadata cfg signer env))"
    using metadata_catch_events [of e] by (simp add: run)
  show "\<forall>n. snd (spl_metadata cfg signer env) \<noteq> Inl (Exit n)"
    using metadata_catch_events [of e] by (simp add: run)
  assume "handler_completes e"
  then show "spl_metadata cfg signer env =
            ([Console (ErrorCreatingMetadata e),
              Console (if marker_found e then NftMismatchExplanation
                       else GenericTroubleshooting)], Inr ())"
    by (simp only: run metadata_catch_completes)
qed

theorem uri_check_before_any_mutation_witness:
  "\<not> UPLOAD_METADATA_JSON (no_upload_config ''http://x'') \<and>
   length (tm_uri (TOKEN_METADATA (no_upload_config ''http://x''))) < 10 \<and>
   snd (spl_metadata (no_upload_config ''http://x'') (Base58 ''WALLET'')
          (sample_metadata_env (Inr ''sig''))) = Inl (Exit 1) \<and>
   sdk_calls (fst (spl_metadata (no_upload_config ''http://x'') (Base58 ''WALLET'')
          (sample_metadata_env (Inr ''sig'')))) =
     [UmiGetAccount (Base58 ''5SY3Rna38Ay1SAQvswinezjdaeGv576LAfTv9Vo7dcft'')] \<and>
   filter mutating (sdk_calls (fst (spl_metadata (no_upload_config ''http://x'') (Base58 ''WALLET'')
          (sample_metadata_env (Inr ''sig''))))) = [] \<and>
   \<not> UPLOAD_METADATA_JSON unparsable_config \<and>
   tm_uri (TOKEN_METADATA unparsable_config) = [] \<and>
   length (MINT_ADDRESS unparsable_config) = 43 \<and>
   md_publicKey sample_refusing_env (MINT_ADDRESS unparsable_config) = Inl sample_key_error \<and>
   spl_metadata unparsable_config (Base58 ''WALLET'') sample_refusing_env =
     ([Console (ErrorCreatingMetadata sample_key_error), Console GenericTroubleshooting], Inr ())"
proof -
  have cfg: "\<not> UPLOAD_METADATA_JSON (no_upload_config ''http://x'')"
    "length (tm_uri (TOKEN_METADATA (no_upload_config ''http://x''))) < 10"
    "MINT_ADDRESS (no_upload_config ''http://x'') = ''5SY3Rna38Ay1SAQvswinezjdaeGv576LAfTv9Vo7dcft''"
    by (simp_all add: no_upload_config_def repository_config_def)
  have ok: "\<not> (string_includes (MINT_ADDRESS (no_upload_config ''http://x'')) ''<PASTE'' \<or>
              length (MINT_ADDRESS (no_upload_config ''http://x'')) < 32)"
    by (simp add: cfg(3))
  have env: "md_publicKey (sample_metadata_env (Inr ''sig'')) (MINT_ADDRESS (no_upload_config ''http://x''))
               = Inr (Base58 ''5SY3Rna38Ay1SAQvswinezjdaeGv576LAfTv9Vo7dcft'')"
    "\<forall>a. md_getAccount (sample_metadata_env (Inr ''sig'')) = Inr a \<longrightarrow> ma_exists a"
    by (auto simp: sample_metadata_env_def cfg(3))
  from uri_check_before_any_mutation [OF cfg(1) disjI2 [OF cfg(2)],
      of "Base58 ''WALLET''" "sample_metadata_env (Inr ''sig'')"
         "Base58 ''5SY3Rna38Ay1SAQvswinezjdaeGv576LAfTv9Vo7dcft''"] ok env cfg(1,2)
  have first: "snd (spl_metadata (no_upload_config ''http://x'') (Base58 ''WALLET'')
          (sample_metadata_env (Inr ''sig''))) = Inl (Exit 1) \<and>
     sdk_calls (fst (spl_metadata (no_upload_config ''http://x'') (Base58 ''WALLET'')
          (sample_metadata_env (Inr ''sig'')))) =
       [UmiGetAccount (Base58 ''5SY3Rna38Ay1SAQvswinezjdaeGv576LAfTv9Vo7dcft'')] \<and>
     filter mutating (sdk_calls (fst (spl_metadata (no_upload_config ''http://x'') (Base58 ''WALLET'')
          (sample_metadata_env (Inr ''sig''))))) = []"
    by blast
  have ucfg: "\<not> UPLOAD_METADATA_JSON unparsable_config"
    "tm_uri (TOKEN_METADATA unparsable_config) = []"
    "MINT_ADDRESS unparsable_config = ''xOIl0OIl0OIl0OIl0OIl0OIl0OIl0OIl0OIl0OIl000''"
    by (simp_all add: unparsable_config_def no_upload_config_def repository_config_def)
  have uok: "\<not> (string_includes (MINT_ADDRESS unparsable_config) ''<PASTE'' \<or>
               length (MINT_ADDRESS unparsable_config) < 32)"
    "length (MINT_ADDRESS unparsable_config) = 43"
    by (simp_all add: ucfg(3))
  have uenv: "md_publicKey sample_refusing_env (MINT_ADDRESS unparsable_config) = Inl sample_key_error"
    by (simp add: sample_refusing_env_def)
  from uri_check_before_any_mutation [OF ucfg(1) disjI1 [OF ucfg(2)],
      of "Base58 ''WALLET''" sample_refusing_env _ sample_key_error] uok(1) uenv sample_errors(5)
  have "spl_metadata unparsable_config (Base58 ''WALLET'') sample_refusing_env =
     ([Console (ErrorCreatingMetadata sample_key_error),
       Console (if marker_found sample_key_error then NftMismatchExplanation
                else GenericTroubleshooting)], Inr ())"
    by blast
  then have second: "spl_metadata unparsable_config (Base58 ''WALLET'') sample_refusing_env =
     ([Console (ErrorCreatingMetadata sample_key_error), Console GenericTroubleshooting], Inr ())"
    by (simp add: sample_errors(6))
  from cfg(1,2) first ucfg(1,2) uok(2) uenv second show ?thesis
    by (intro conjI) (elim conjE, assumption)+
qed




end
